theory Spec2Isabelle
  imports Complex_Main "HOL-Library.Word"
begin

section \<open>The volume viewer: field construction and rebuild on lookup-table change\<close>

text \<open>
  This theory embeds the scene set-up of \<^verbatim>\<open>src/viewer.cpp\<close>
  (\<^verbatim>\<open>Application::setupWindows\<close>, lines 249 to 402), the callback that
  \<^verbatim>\<open>setUpdateLacLutCallback\<close> installs (lines 452 to 541) and
  \<^verbatim>\<open>Application::teardown\<close> (lines 579 to 585).

  The program is a straight sequence of calls into the rendering API, so the model threads
  one explicit state through these calls. The rendering device is a record holding the
  objects created so far, their pending and committed parameters, and the list of calls
  made, oldest first. The file readers and the lookup-table reader are not part of the
  source file; they are taken as parameters, collected in the record \<open>Env\<close>. The model
  is of the build with \<^verbatim>\<open>HAVE_ITK\<close>: the callback uses the medical-image reader
  outside of any conditional compilation.
\<close>

subsection \<open>Data\<close>

text \<open>
  A handle of the rendering API is a pointer: \<open>Null\<close> is \<^verbatim>\<open>nullptr\<close>, and
  \<open>Obj n\<close> is the \<open>n\<close>-th object the device has handed out.
\<close>

datatype handle = Null | Obj nat

text \<open>
  A \<^verbatim>\<open>float\<close> is modelled by the real number it denotes. The program never computes
  with floats: it copies them and writes the literals \<^verbatim>\<open>0.f\<close> and \<^verbatim>\<open>1.f\<close>.
\<close>

type_synonym float = real

text \<open>
  \<^verbatim>\<open>StructuredField\<close> is declared in \<^verbatim>\<open>FieldTypes.h\<close>, which is not part of the
  source file; these are the members that \<^verbatim>\<open>viewer.cpp\<close> reads. The dimensions are
  taken to be of type \<^verbatim>\<open>int\<close>, as \<^verbatim>\<open>g_dimX\<close> is, and the cell width to be unsigned, as
  \<^verbatim>\<open>g_bytesPerCell\<close> is. \<open>dataRange\<close> is the pair (\<^verbatim>\<open>dataRange.x\<close>, \<^verbatim>\<open>dataRange.y\<close>).
\<close>

record StructuredField =
  dataUI8 :: "8 word list"
  dataUI16 :: "16 word list"
  dataF32 :: "float list"
  dimX :: int
  dimY :: int
  dimZ :: int
  bytesPerCell :: nat
  dataRange :: "float \<times> float"

datatype ANARIDataType =
    ANARI_UFIXED8 | ANARI_UFIXED16 | ANARI_FLOAT32 | ANARI_FLOAT32_VEC3 | ANARI_VOLUME

text \<open>The host memory an array is created over, with its contents at creation.\<close>

datatype appMemory =
    MemUI8 "8 word list"
  | MemUI16 "16 word list"
  | MemF32 "float list"
  | MemVec3 "(float \<times> float \<times> float) list"
  | MemHandles "handle list"

text \<open>
  Device objects. \<open>Array3D mem ty n1 n2 n3\<close> is an array over \<open>mem\<close> with element type
  \<open>ty\<close> and the three extents; \<open>Array1D mem ty n\<close> has \<open>n\<close> items.
\<close>

datatype object =
    World
  | SpatialField string
  | Volume string
  | Array3D appMemory ANARIDataType nat nat nat
  | Array1D appMemory ANARIDataType nat

datatype param = PObject handle | PString string | PBox1 float float

datatype call =
    NewObject handle
  | SetParameter handle string param
  | CommitParameters handle
  | Release handle

text \<open>
  The state behind a device handle. \<open>params\<close> holds what \<^verbatim>\<open>setParameter\<close> has
  written, \<open>committed\<close> what the last \<^verbatim>\<open>commitParameters\<close> of the object made
  active. Objects are never removed from \<open>objects\<close>: what the application has released
  is read from \<open>calls\<close>.
\<close>

record Device =
  next_handle :: nat
  objects :: "nat \<rightharpoonup> object"
  params :: "nat \<Rightarrow> string \<rightharpoonup> param"
  committed :: "nat \<Rightarrow> string \<rightharpoonup> param"
  calls :: "call list"

datatype error = LoadLibraryFailed | NoDevice | SourceFailure nat

text \<open>
  A reader remembers what it was asked to open. The raw reader is opened with a file name,
  three dimensions and a cell width, the medical-image reader with a file name.
\<close>

datatype 'a reader = Unopened | OpenFailed 'a | Opened 'a

type_synonym RAWReader = "(string \<times> int \<times> int \<times> int \<times> nat) reader"
type_synonym NiftiReader = "string reader"

text \<open>
  Modelled from the spec: the class \<^verbatim>\<open>LacReader\<close> of \<^verbatim>\<open>LacTransform.h\<close> is missing.
  The lookup-table catalog is loaded by \<^verbatim>\<open>read\<close>, holds the names of its tables and
  an active index that \<^verbatim>\<open>setActiveLut\<close> overwrites without a range check (an index out
  of range is passed on to the voxel source).
\<close>

record LacReader =
  lac_filename :: string
  lac_names :: "string list"
  lac_active :: nat

text \<open>
  What the program takes from outside. \<open>raw_getField\<close> and \<open>nifti_getField\<close> either
  return a field or fail; the callers test no return value, so a failure is a C++ exception
  that leaves the calling function at the call. A call of \<^verbatim>\<open>getField\<close> is taken to
  change neither the reader nor the lookup-table reader passed to it. \<open>uninit_scalar\<close>
  is the value that the local \<^verbatim>\<open>anari::Array3D scalar;\<close>, declared without an
  initialiser, happens to hold.
\<close>

record Env =
  loadLibrary :: bool
  newDevice :: bool
  lac_read :: "string \<Rightarrow> string list"
  raw_open :: "string \<Rightarrow> int \<Rightarrow> int \<Rightarrow> int \<Rightarrow> nat \<Rightarrow> bool"
  raw_getField :: "RAWReader \<Rightarrow> nat \<Rightarrow> error + StructuredField"
  nifti_open :: "string \<Rightarrow> bool"
  nifti_getField :: "NiftiReader \<Rightarrow> nat \<Rightarrow> LacReader \<Rightarrow> error + StructuredField"
  uninit_scalar :: handle

text \<open>
  The file-scope variables that the scene set-up reads and writes, the members of
  \<^verbatim>\<open>AppState\<close>, and the state of the rendering API behind \<open>device\<close>.
\<close>

record State =
  g_filename :: string
  g_dimX :: int
  g_dimY :: int
  g_dimZ :: int
  g_bytesPerCell :: nat
  g_voxelRange :: "float \<times> float"
  g_laclutfile :: string
  g_laclutid :: nat
  device :: handle
  world :: handle
  field :: handle
  sdata :: StructuredField
  lacReader :: LacReader
  niftiReader :: NiftiReader
  rawReader :: RAWReader
  anari :: Device

subsection \<open>The rendering API\<close>

text \<open>
  Modelled from the spec: the five primitives of the rendering API (section 6): object
  creation, array creation over a caller's buffer, set-parameter with its variant that
  releases the caller's reference, commit-parameters, release.
\<close>

definition newObject :: "object \<Rightarrow> Device \<Rightarrow> handle \<times> Device" where
  "newObject ob d =
     (Obj (next_handle d),
      d\<lparr>next_handle := Suc (next_handle d),
        objects := (objects d)(next_handle d \<mapsto> ob),
        calls := calls d @ [NewObject (Obj (next_handle d))]\<rparr>)"

text \<open>The conversion of an \<^verbatim>\<open>int\<close> argument to the \<^verbatim>\<open>uint64_t\<close> extent.\<close>

definition uint64_t :: "int \<Rightarrow> nat" where
  "uint64_t i = nat (i mod 2 ^ 64)"

definition anariNewArray3D ::
  "appMemory \<Rightarrow> ANARIDataType \<Rightarrow> int \<Rightarrow> int \<Rightarrow> int \<Rightarrow> Device \<Rightarrow> handle \<times> Device" where
  "anariNewArray3D mem ty n1 n2 n3 d =
     newObject (Array3D mem ty (uint64_t n1) (uint64_t n2) (uint64_t n3)) d"

definition newArray1D :: "appMemory \<Rightarrow> ANARIDataType \<Rightarrow> nat \<Rightarrow> Device \<Rightarrow> handle \<times> Device" where
  "newArray1D mem ty n d = newObject (Array1D mem ty n) d"

definition setParameter :: "handle \<Rightarrow> string \<Rightarrow> param \<Rightarrow> Device \<Rightarrow> Device" where
  "setParameter h name v d =
     (case h of
        Null \<Rightarrow> d\<lparr>calls := calls d @ [SetParameter h name v]\<rparr>
      | Obj n \<Rightarrow>
          d\<lparr>params := (params d)(n := (params d n)(name \<mapsto> v)),
            calls := calls d @ [SetParameter h name v]\<rparr>)"

definition commitParameters :: "handle \<Rightarrow> Device \<Rightarrow> Device" where
  "commitParameters h d =
     (case h of
        Null \<Rightarrow> d\<lparr>calls := calls d @ [CommitParameters h]\<rparr>
      | Obj n \<Rightarrow>
          d\<lparr>committed := (committed d)(n := params d n),
            calls := calls d @ [CommitParameters h]\<rparr>)"

definition release :: "handle \<Rightarrow> Device \<Rightarrow> Device" where
  "release h d = d\<lparr>calls := calls d @ [Release h]\<rparr>"

definition setAndReleaseParameter :: "handle \<Rightarrow> string \<Rightarrow> handle \<Rightarrow> Device \<Rightarrow> Device" where
  "setAndReleaseParameter h name a d = release a (setParameter h name (PObject a) d)"


text \<open>The handles released by a list of calls, in order.\<close>

fun releases :: "call list \<Rightarrow> handle list" where
  "releases [] = []"
| "releases (Release h # cs) = h # releases cs"
| "releases (c # cs) = releases cs"

subsection \<open>Field construction (lines 274 to 314, 321 to 361 and 459 to 499)\<close>

text \<open>
  The three copies of the block differ in the extents they pass: the raw path passes
  \<^verbatim>\<open>g_dimX, g_dimY, g_dimZ\<close>, the other two the dimensions of the field. When no
  branch of the dispatch is taken, \<^verbatim>\<open>scalar\<close> keeps its uninitialised value, and the
  calls that follow are made all the same.
\<close>

definition buildField ::
  "Env \<Rightarrow> StructuredField \<Rightarrow> int \<Rightarrow> int \<Rightarrow> int \<Rightarrow> Device \<Rightarrow> handle \<times> Device" where
  "buildField env data' nx ny nz d0 =
     (let (field', d1) = newObject (SpatialField ''structuredRegular'') d0;
          (scalar, d2) =
            (if bytesPerCell data' = 1 then
               anariNewArray3D (MemUI8 (dataUI8 data')) ANARI_UFIXED8 nx ny nz d1
             else if bytesPerCell data' = 2 then
               anariNewArray3D (MemUI16 (dataUI16 data')) ANARI_UFIXED16 nx ny nz d1
             else if bytesPerCell data' = 4 then
               anariNewArray3D (MemF32 (dataF32 data')) ANARI_FLOAT32 nx ny nz d1
             else (uninit_scalar env, d1));
          d3 = setAndReleaseParameter field' ''data'' scalar d2;
          d4 = setParameter field' ''filter'' (PString ''linear'') d3;
          d5 = commitParameters field' d4
      in (field', d5))"

subsection \<open>Volume construction (lines 367 to 394 and 503 to 531)\<close>

text \<open>
  The block reads \<^verbatim>\<open>m_state.field\<close> and \<^verbatim>\<open>g_voxelRange\<close> from the state. The two
  vectors \<^verbatim>\<open>colors\<close> and \<^verbatim>\<open>opacities\<close> are filled with \<^verbatim>\<open>emplace_back\<close> and copied
  into one-dimensional arrays of their sizes.
\<close>

definition buildVolume :: "State \<Rightarrow> handle \<times> State" where
  "buildVolume s =
     (let (volume, d1) = newObject (Volume ''transferFunction1D'') (anari s);
          d2 = setParameter volume ''value'' (PObject (field s)) d1;
          d3 = setParameter volume ''field'' (PObject (field s)) d2;
          colors = [(0, 0, 1), (0, 1, 0), (1, 0, 0)];
          opacities = [0, 1];
          (ca, d4) = newArray1D (MemVec3 colors) ANARI_FLOAT32_VEC3 (length colors) d3;
          d5 = setAndReleaseParameter volume ''color'' ca d4;
          (oa, d6) = newArray1D (MemF32 opacities) ANARI_FLOAT32 (length opacities) d5;
          d7 = setAndReleaseParameter volume ''opacity'' oa d6;
          d8 = setParameter volume ''valueRange''
                 (PBox1 (fst (g_voxelRange s)) (snd (g_voxelRange s))) d7;
          d9 = commitParameters volume d8
      in (volume, s\<lparr>anari := d9\<rparr>))"

subsection \<open>Binding the volume into the world (lines 397 to 402 and 534 to 539)\<close>

definition bindVolume :: "handle \<Rightarrow> State \<Rightarrow> State" where
  "bindVolume volume s =
     (let (va, d1) = newArray1D (MemHandles [volume]) ANARI_VOLUME 1 (anari s);
          d2 = setAndReleaseParameter (world s) ''volume'' va d1;
          d3 = release volume d2;
          d4 = commitParameters (world s) d3
      in s\<lparr>anari := d4\<rparr>)"

subsection \<open>The lookup-table reader\<close>

definition setFilename :: "string \<Rightarrow> LacReader \<Rightarrow> LacReader" where
  "setFilename f lac = lac\<lparr>lac_filename := f\<rparr>"

definition read :: "Env \<Rightarrow> LacReader \<Rightarrow> LacReader" where
  "read env lac = lac\<lparr>lac_names := lac_read env (lac_filename lac)\<rparr>"

definition setActiveLut :: "nat \<Rightarrow> LacReader \<Rightarrow> LacReader" where
  "setActiveLut i lac = lac\<lparr>lac_active := i\<rparr>"

subsection \<open>Scene set-up at startup (lines 251 to 402)\<close>

text \<open>
  \<^verbatim>\<open>initializeANARI\<close> throws when the library does not load, and stores the device
  handle, which \<^verbatim>\<open>setupWindows\<close> tests. The parameters that it sets on the device
  itself are not kept: the record \<open>Device\<close> holds the objects created from the device.
  A fresh device has handed out its own handle only. What \<^verbatim>\<open>setupWindows\<close> does after
  line 402 (predictions, windows, editors) creates and releases no object of the scene and
  is not modelled, except for the callback that it installs.
\<close>

definition initializeANARI :: "Env \<Rightarrow> error + handle" where
  "initializeANARI env =
     (if \<not> loadLibrary env then Inl LoadLibraryFailed
      else Inr (if newDevice env then Obj 0 else Null))"

definition new_device :: Device where
  "new_device =
     \<lparr>next_handle = 1, objects = Map.empty, params = (\<lambda>n. Map.empty),
      committed = (\<lambda>n. Map.empty), calls = []\<rparr>"

text \<open>
  The state in which \<^verbatim>\<open>setupWindows\<close> is entered: \<^verbatim>\<open>g_voxelRange\<close> is a static
  array without an initialiser, hence zero (line 45); the handles of \<^verbatim>\<open>AppState\<close> are
  initialised with \<^verbatim>\<open>nullptr\<close> (lines 99 to 101); no reader has been opened. The other
  file-scope variables are as the command line and the guess from the file name
  (lines 211 to 247) left them.
\<close>

definition startState :: "State \<Rightarrow> bool" where
  "startState s \<longleftrightarrow>
     g_voxelRange s = (0, 0) \<and> device s = Null \<and> world s = Null \<and> field s = Null \<and>
     niftiReader s = Unopened \<and> rawReader s = Unopened"

text \<open>The branch of line 317: the medical-image reader, tried when the raw path is not taken.\<close>

definition niftiPath :: "Env \<Rightarrow> State \<Rightarrow> (error \<times> State) + State" where
  "niftiPath env s =
     (if nifti_open env (g_filename s) then
        (let s1 = s\<lparr>niftiReader := Opened (g_filename s)\<rparr> in
         case nifti_getField env (niftiReader s1) 0 (lacReader s1) of
           Inl e \<Rightarrow> Inl (e, s1)
         | Inr data' \<Rightarrow>
             (let s2 = s1\<lparr>sdata := data'\<rparr>;
                  (field', d) =
                    buildField env data' (dimX data') (dimY data') (dimZ data') (anari s2)
              in Inr (s2\<lparr>anari := d, field := field',
                          g_voxelRange := (fst (dataRange data'), snd (dataRange data'))\<rparr>)))
      else Inr (s\<lparr>niftiReader := OpenFailed (g_filename s)\<rparr>))"

text \<open>
  The condition of line 268 calls \<^verbatim>\<open>rawReader.open\<close> only when the three dimensions
  and the cell width are all non-zero.
\<close>

definition loadSource :: "Env \<Rightarrow> State \<Rightarrow> (error \<times> State) + State" where
  "loadSource env s =
     (if g_dimX s \<noteq> 0 \<and> g_dimY s \<noteq> 0 \<and> g_dimZ s \<noteq> 0 \<and> g_bytesPerCell s \<noteq> 0 then
        (let args = (g_filename s, g_dimX s, g_dimY s, g_dimZ s, g_bytesPerCell s) in
         if raw_open env (g_filename s) (g_dimX s) (g_dimY s) (g_dimZ s) (g_bytesPerCell s)
         then
           (let s1 = s\<lparr>rawReader := Opened args\<rparr> in
            case raw_getField env (rawReader s1) 0 of
              Inl e \<Rightarrow> Inl (e, s1)
            | Inr data' \<Rightarrow>
                (let s2 = s1\<lparr>sdata := data'\<rparr>;
                     (field', d) =
                       buildField env data' (g_dimX s2) (g_dimY s2) (g_dimZ s2) (anari s2)
                 in Inr (s2\<lparr>anari := d, field := field',
                             g_voxelRange := (fst (dataRange data'), snd (dataRange data'))\<rparr>)))
         else niftiPath env (s\<lparr>rawReader := OpenFailed args\<rparr>))
      else niftiPath env s)"

definition setupWindows :: "Env \<Rightarrow> State \<Rightarrow> (error \<times> State) + State" where
  "setupWindows env s0 =
     (case initializeANARI env of
        Inl e \<Rightarrow> Inl (e, s0)
      | Inr dev \<Rightarrow>
          if dev = Null then Inl (NoDevice, s0)
          else
            (let (w, d1) = newObject World new_device;
                 s1 = s0\<lparr>device := dev, world := w, anari := d1\<rparr>;
                 lac0 = (if g_laclutfile s1 \<noteq> []
                         then setFilename (g_laclutfile s1) (lacReader s1)
                         else lacReader s1);
                 lac1 = setActiveLut (g_laclutid s1) (read env lac0);
                 s2 = s1\<lparr>lacReader := lac1\<rparr>
             in case loadSource env s2 of
                  Inl x \<Rightarrow> Inl x
                | Inr s3 \<Rightarrow>
                    (let (volume, s4) = buildVolume s3
                     in Inr (bindVolume volume s4))))"

subsection \<open>The callback for a change of the lookup table (lines 453 to 541)\<close>

definition updateLacLut :: "Env \<Rightarrow> nat \<Rightarrow> State \<Rightarrow> (error \<times> State) + State" where
  "updateLacLut env lacLutId s0 =
     (let s1 = s0\<lparr>lacReader := setActiveLut lacLutId (lacReader s0)\<rparr> in
      case nifti_getField env (niftiReader s1) 0 (lacReader s1) of
        Inl e \<Rightarrow> Inl (e, s1)
      | Inr data' \<Rightarrow>
          (let s2 = s1\<lparr>sdata := data'\<rparr>;
               (field', d) =
                 buildField env data' (dimX data') (dimY data') (dimZ data') (anari s2);
               s3 = s2\<lparr>anari := d, field := field',
                       g_voxelRange := (fst (dataRange data'), snd (dataRange data'))\<rparr>;
               (volume, s4) = buildVolume s3
           in Inr (bindVolume volume s4)))"

text \<open>
  The settings editor calls the callback once for each change of the selection; a run of
  changes stops at the first call that does not return.
\<close>

fun rebuilds :: "Env \<Rightarrow> nat list \<Rightarrow> State \<Rightarrow> (error \<times> State) + State" where
  "rebuilds env [] s = Inr s"
| "rebuilds env (i # is) s =
     (case updateLacLut env i s of Inl x \<Rightarrow> Inl x | Inr s' \<Rightarrow> rebuilds env is s')"

subsection \<open>Teardown (lines 579 to 585)\<close>

definition teardown :: "State \<Rightarrow> State" where
  "teardown s =
     s\<lparr>anari := release (device s) (release (world s) (release (field s) (anari s)))\<rparr>"

subsection \<open>The two stages of a build, as state transformers\<close>

text \<open>
  The set-up and the callback run the same two blocks one after the other. For the proofs
  each block is named: \<open>fieldStage\<close> is the field construction together with the
  assignments to \<^verbatim>\<open>m_state.sdata\<close>, \<^verbatim>\<open>m_state.field\<close> and \<^verbatim>\<open>g_voxelRange\<close>;
  \<open>volumeStage\<close> is the volume construction followed by the binding into the world.
\<close>

definition fieldStage :: "Env \<Rightarrow> StructuredField \<Rightarrow> int \<Rightarrow> int \<Rightarrow> int \<Rightarrow> State \<Rightarrow> State" where
  "fieldStage env data' nx ny nz s =
     (let s2 = s\<lparr>sdata := data'\<rparr>;
          (field', d) = buildField env data' nx ny nz (anari s2)
      in s2\<lparr>anari := d, field := field',
             g_voxelRange := (fst (dataRange data'), snd (dataRange data'))\<rparr>)"

definition volumeStage :: "State \<Rightarrow> State" where
  "volumeStage s = (let (volume, s4) = buildVolume s in bindVolume volume s4)"

subsection \<open>A session, and what a renderer reads from the world\<close>

text \<open>A run of the program up to teardown: the set-up, then the changes of the selection.\<close>

definition session :: "Env \<Rightarrow> State \<Rightarrow> nat list \<Rightarrow> (error \<times> State) + State" where
  "session env s0 ids =
     (case setupWindows env s0 of Inl x \<Rightarrow> Inl x | Inr s1 \<Rightarrow> rebuilds env ids s1)"

text \<open>
  The volumes bound in the scene: the handles in the array that is the committed
  \<^verbatim>\<open>"volume"\<close> parameter of the world.
\<close>

definition worldVolumes :: "Device \<Rightarrow> handle \<Rightarrow> handle list option" where
  "worldVolumes d h =
     (case h of
        Null \<Rightarrow> None
      | Obj w \<Rightarrow>
          (case committed d w ''volume'' of
             Some (PObject (Obj a)) \<Rightarrow>
               (case objects d a of
                  Some (Array1D (MemHandles vs) ty n) \<Rightarrow>
                    if ty = ANARI_VOLUME \<and> n = length vs then Some vs else None
                | _ \<Rightarrow> None)
           | _ \<Rightarrow> None))"

definition boundVolumes :: "State \<Rightarrow> handle list option" where
  "boundVolumes s = worldVolumes (anari s) (world s)"

text \<open>The object that is the committed parameter \<open>name\<close> of the object \<open>k\<close>.\<close>

definition paramObject :: "Device \<Rightarrow> nat \<Rightarrow> string \<Rightarrow> object option" where
  "paramObject d k name =
     (case committed d k name of
        Some (PObject (Obj a)) \<Rightarrow> objects d a
      | _ \<Rightarrow> None)"

subsection \<open>Example inputs\<close>

text \<open>
  A medical-image field of two \<^verbatim>\<open>float\<close> cells spanning \<open>-1\<close> to \<open>3.5\<close>, and the raw
  field that the example raw reader returns for the dimensions and cell width it was
  opened with.
\<close>

definition ex_field :: StructuredField where
  "ex_field =
     \<lparr>dataUI8 = [], dataUI16 = [], dataF32 = [-1, 3.5], dimX = 2, dimY = 1, dimZ = 1,
      bytesPerCell = 4, dataRange = (-1, 3.5)\<rparr>"

definition ex_raw_field :: "int \<Rightarrow> int \<Rightarrow> int \<Rightarrow> nat \<Rightarrow> StructuredField" where
  "ex_raw_field x y z b =
     \<lparr>dataUI8 = [128, 128], dataUI16 = [], dataF32 = [], dimX = x, dimY = y, dimZ = z,
      bytesPerCell = b, dataRange = (128, 128)\<rparr>"

text \<open>
  An environment with one raw file and one medical-image file and a catalog of two lookup
  tables. The medical-image reader fails when the active index is not in the catalog.
\<close>

definition ex_env :: Env where
  "ex_env =
     \<lparr>loadLibrary = True, newDevice = True,
      lac_read = (\<lambda>f. [''water'', ''bone'']),
      raw_open = (\<lambda>f x y z b. f = ''grid.raw''),
      raw_getField = (\<lambda>r i. case r of
                        Opened (f, x, y, z, b) \<Rightarrow> Inr (ex_raw_field x y z b)
                      | _ \<Rightarrow> Inl (SourceFailure 0)),
      nifti_open = (\<lambda>f. f = ''ct.nii''),
      nifti_getField = (\<lambda>r i lac. if lac_active lac < length (lac_names lac)
                                    then Inr ex_field else Inl (SourceFailure 1)),
      uninit_scalar = Obj 7\<rparr>"

definition ex_start :: "string \<Rightarrow> int \<Rightarrow> int \<Rightarrow> int \<Rightarrow> nat \<Rightarrow> State" where
  "ex_start f x y z b =
     \<lparr>g_filename = f, g_dimX = x, g_dimY = y, g_dimZ = z, g_bytesPerCell = b,
      g_voxelRange = (0, 0), g_laclutfile = [], g_laclutid = 0,
      device = Null, world = Null, field = Null,
      sdata = \<lparr>dataUI8 = [], dataUI16 = [], dataF32 = [], dimX = 0, dimY = 0, dimZ = 0,
               bytesPerCell = 0, dataRange = (0, 0)\<rparr>,
      lacReader = \<lparr>lac_filename = [], lac_names = [], lac_active = 0\<rparr>,
      niftiReader = Unopened, rawReader = Unopened, anari = new_device\<rparr>"

text \<open>The states after the set-up for the medical image, and after one change to table 1.\<close>

definition ex_nifti_1 :: State where
  "ex_nifti_1 = projr (setupWindows ex_env (ex_start ''ct.nii'' 0 0 0 0))"

definition ex_nifti_2 :: State where
  "ex_nifti_2 = projr (updateLacLut ex_env 1 ex_nifti_1)"

text \<open>
  The states after the set-up for the raw file with one byte per cell, after one change to
  table 1 from there, and after the set-up for a file that no reader opens.
\<close>

definition ex_raw_1 :: State where
  "ex_raw_1 = projr (setupWindows ex_env (ex_start ''grid.raw'' 2 1 1 1))"

definition ex_raw_2 :: State where
  "ex_raw_2 = projr (updateLacLut ex_env 1 ex_raw_1)"

definition ex_none_1 :: State where
  "ex_none_1 = projr (setupWindows ex_env (ex_start ''missing'' 0 0 0 0))"

text \<open>The state after the set-up for the raw file declared with three bytes per cell.\<close>

definition ex_raw3_1 :: State where
  "ex_raw3_1 = projr (setupWindows ex_env (ex_start ''grid.raw'' 2 1 1 3))"




subsection \<open>The release invariant\<close>

text \<open>
  What holds of the releases in every state of a session whose fields have 1, 2 or 4 bytes
  per cell: the world is object 1 and the device object 0; no handle has been released
  twice; every released handle is an object handed out after the world; the field handle
  of the state is null or such an object, and has not been released.
\<close>

fun handedOut :: "nat \<Rightarrow> handle \<Rightarrow> bool" where
  "handedOut n Null = False"
| "handedOut n (Obj k) = (2 \<le> k \<and> k < n)"

definition releaseInv :: "State \<Rightarrow> bool" where
  "releaseInv s \<longleftrightarrow>
     world s = Obj 1 \<and> device s = Obj 0 \<and> 2 \<le> next_handle (anari s) \<and>
     distinct (releases (calls (anari s))) \<and>
     (\<forall>h \<in> set (releases (calls (anari s))). handedOut (next_handle (anari s)) h) \<and>
     (field s = Null \<or> handedOut (next_handle (anari s)) (field s)) \<and>
     field s \<notin> set (releases (calls (anari s)))"

subsection \<open>An example session\<close>

text \<open>
  The example environment without its raw file, and in it the state after the set-up for
  the medical image and a change to table 1, and the state after a further change to
  table 0.
\<close>

definition ex_env_nifti :: Env where
  "ex_env_nifti =
     ex_env\<lparr>raw_open := (\<lambda>f x y z b. False), raw_getField := (\<lambda>r i. Inl (SourceFailure 0))\<rparr>"

definition ex_session_1 :: State where
  "ex_session_1 = projr (session ex_env_nifti (ex_start ''ct.nii'' 0 0 0 0) [1])"

definition ex_session_2 :: State where
  "ex_session_2 = projr (updateLacLut ex_env_nifti 0 ex_session_1)"

section \<open>Effects of the API calls\<close>

text \<open>
  The proofs never unfold a device state. They read a component of the state after a call
  from the state before it, one call at a time.
\<close>

lemma newObject_fst: "fst (newObject ob d) = Obj (next_handle d)"
  by (simp add: newObject_def)

lemma newObject_sel:
  "next_handle (snd (newObject ob d)) = Suc (next_handle d)"
  "objects (snd (newObject ob d)) = (objects d)(next_handle d \<mapsto> ob)"
  "params (snd (newObject ob d)) = params d"
  "committed (snd (newObject ob d)) = committed d"
  "calls (snd (newObject ob d)) = calls d @ [NewObject (Obj (next_handle d))]"
  by (simp_all add: newObject_def)

lemma setParameter_sel:
  "next_handle (setParameter h nm v d) = next_handle d"
  "objects (setParameter h nm v d) = objects d"
  "committed (setParameter h nm v d) = committed d"
  "calls (setParameter h nm v d) = calls d @ [SetParameter h nm v]"
  "params (setParameter (Obj m) nm v d) k =
     (if k = m then (params d k)(nm \<mapsto> v) else params d k)"
  "params (setParameter Null nm v d) = params d"
  by (simp_all add: setParameter_def split: handle.splits)

lemma commitParameters_sel:
  "next_handle (commitParameters h d) = next_handle d"
  "objects (commitParameters h d) = objects d"
  "params (commitParameters h d) = params d"
  "calls (commitParameters h d) = calls d @ [CommitParameters h]"
  "committed (commitParameters (Obj m) d) k = (if k = m then params d k else committed d k)"
  "committed (commitParameters Null d) = committed d"
  by (simp_all add: commitParameters_def split: handle.splits)

lemma release_sel:
  "next_handle (release h d) = next_handle d"
  "objects (release h d) = objects d"
  "params (release h d) = params d"
  "committed (release h d) = committed d"
  "calls (release h d) = calls d @ [Release h]"
  by (simp_all add: release_def)

lemmas api_sel =
  newObject_fst newObject_sel setParameter_sel commitParameters_sel release_sel
  setAndReleaseParameter_def anariNewArray3D_def newArray1D_def

lemmas stage_defs =
  buildField_def buildVolume_def bindVolume_def fieldStage_def volumeStage_def
  Let_def split_def

lemmas run_defs =
  setupWindows_def initializeANARI_def loadSource_def niftiPath_def updateLacLut_def
  setActiveLut_def read_def setFilename_def new_device_def session_def

lemmas ex_defs =
  ex_env_def ex_start_def ex_field_def ex_raw_field_def ex_nifti_1_def ex_nifti_2_def

lemma releases_append: "releases (xs @ ys) = releases xs @ releases ys"
  by (induction xs rule: releases.induct) simp_all

subsection \<open>The volume stage\<close>

lemma volumeStage_frame:
  "field (volumeStage s) = field s"
  "world (volumeStage s) = world s"
  "device (volumeStage s) = device s"
  "sdata (volumeStage s) = sdata s"
  "g_voxelRange (volumeStage s) = g_voxelRange s"
  "lacReader (volumeStage s) = lacReader s"
  "niftiReader (volumeStage s) = niftiReader s"
  "rawReader (volumeStage s) = rawReader s"
  "g_dimX (volumeStage s) = g_dimX s"
  "g_dimY (volumeStage s) = g_dimY s"
  "g_dimZ (volumeStage s) = g_dimZ s"
  "next_handle (anari (volumeStage s)) = next_handle (anari s) + 4"
  by (simp_all add: stage_defs api_sel)

lemma volumeStage_calls:
  "calls (anari (volumeStage s)) =
     calls (anari s) @
     [NewObject (Obj (next_handle (anari s))),
      SetParameter (Obj (next_handle (anari s))) ''value'' (PObject (field s)),
      SetParameter (Obj (next_handle (anari s))) ''field'' (PObject (field s)),
      NewObject (Obj (next_handle (anari s) + 1)),
      SetParameter (Obj (next_handle (anari s))) ''color''
        (PObject (Obj (next_handle (anari s) + 1))),
      Release (Obj (next_handle (anari s) + 1)),
      NewObject (Obj (next_handle (anari s) + 2)),
      SetParameter (Obj (next_handle (anari s))) ''opacity''
        (PObject (Obj (next_handle (anari s) + 2))),
      Release (Obj (next_handle (anari s) + 2)),
      SetParameter (Obj (next_handle (anari s))) ''valueRange''
        (PBox1 (fst (g_voxelRange s)) (snd (g_voxelRange s))),
      CommitParameters (Obj (next_handle (anari s))),
      NewObject (Obj (next_handle (anari s) + 3)),
      SetParameter (world s) ''volume'' (PObject (Obj (next_handle (anari s) + 3))),
      Release (Obj (next_handle (anari s) + 3)),
      Release (Obj (next_handle (anari s))),
      CommitParameters (world s)]"
  by (simp add: stage_defs api_sel)

lemma volumeStage_objects:
  "objects (anari (volumeStage s)) =
     (objects (anari s))
       (next_handle (anari s) \<mapsto> Volume ''transferFunction1D'',
        next_handle (anari s) + 1 \<mapsto>
          Array1D (MemVec3 [(0, 0, 1), (0, 1, 0), (1, 0, 0)]) ANARI_FLOAT32_VEC3 3,
        next_handle (anari s) + 2 \<mapsto> Array1D (MemF32 [0, 1]) ANARI_FLOAT32 2,
        next_handle (anari s) + 3 \<mapsto>
          Array1D (MemHandles [Obj (next_handle (anari s))]) ANARI_VOLUME 1)"
  by (simp add: stage_defs api_sel eval_nat_numeral)

lemma volumeStage_volume:
  assumes "world s = Obj w" and "w < next_handle (anari s)"
  shows "committed (anari (volumeStage s)) (next_handle (anari s)) =
           (params (anari s) (next_handle (anari s)))
             (''value'' \<mapsto> PObject (field s), ''field'' \<mapsto> PObject (field s),
              ''color'' \<mapsto> PObject (Obj (next_handle (anari s) + 1)),
              ''opacity'' \<mapsto> PObject (Obj (next_handle (anari s) + 2)),
              ''valueRange'' \<mapsto> PBox1 (fst (g_voxelRange s)) (snd (g_voxelRange s)))"
  using assms by (simp add: stage_defs api_sel)

lemma volumeStage_world:
  assumes "world s = Obj w"
  shows "committed (anari (volumeStage s)) w ''volume'' =
           Some (PObject (Obj (next_handle (anari s) + 3)))"
  using assms by (simp add: stage_defs api_sel)


lemma volumeStage_bound:
  assumes "world s = Obj w"
  shows "boundVolumes (volumeStage s) = Some [Obj (next_handle (anari s))]"
  using assms
  by (simp add: boundVolumes_def worldVolumes_def volumeStage_world volumeStage_objects
        volumeStage_frame)

subsection \<open>The field stage\<close>

lemma fieldStage_frame:
  "field (fieldStage env data' nx ny nz s) = Obj (next_handle (anari s))"
  "world (fieldStage env data' nx ny nz s) = world s"
  "device (fieldStage env data' nx ny nz s) = device s"
  "sdata (fieldStage env data' nx ny nz s) = data'"
  "g_voxelRange (fieldStage env data' nx ny nz s) = dataRange data'"
  "lacReader (fieldStage env data' nx ny nz s) = lacReader s"
  "niftiReader (fieldStage env data' nx ny nz s) = niftiReader s"
  "rawReader (fieldStage env data' nx ny nz s) = rawReader s"
  "g_dimX (fieldStage env data' nx ny nz s) = g_dimX s"
  "g_dimY (fieldStage env data' nx ny nz s) = g_dimY s"
  "g_dimZ (fieldStage env data' nx ny nz s) = g_dimZ s"
  by (simp_all add: stage_defs api_sel)

lemma fieldStage_next:
  "next_handle (anari (fieldStage env data' nx ny nz s)) =
     (if bytesPerCell data' \<in> {1, 2, 4} then next_handle (anari s) + 2 else next_handle (anari s) + 1)"
  by (simp add: stage_defs api_sel)

lemma fieldStage_calls:
  "calls (anari (fieldStage env data' nx ny nz s)) =
     calls (anari s) @
     (if bytesPerCell data' \<in> {1, 2, 4} then
       [NewObject (Obj (next_handle (anari s))),
        NewObject (Obj (next_handle (anari s) + 1)),
        SetParameter (Obj (next_handle (anari s))) ''data'' (PObject (Obj (next_handle (anari s) + 1))),
        Release (Obj (next_handle (anari s) + 1)),
        SetParameter (Obj (next_handle (anari s))) ''filter'' (PString ''linear''),
        CommitParameters (Obj (next_handle (anari s)))]
      else
       [NewObject (Obj (next_handle (anari s))),
        SetParameter (Obj (next_handle (anari s))) ''data'' (PObject (uninit_scalar env)),
        Release (uninit_scalar env),
        SetParameter (Obj (next_handle (anari s))) ''filter'' (PString ''linear''),
        CommitParameters (Obj (next_handle (anari s)))])"
  by (simp add: stage_defs api_sel)



lemma fieldStage_committed_frame:
  "j \<noteq> next_handle (anari s) \<Longrightarrow>
   committed (anari (fieldStage env data' nx ny nz s)) j = committed (anari s) j"
  by (simp add: stage_defs api_sel)

lemma updateLacLut_eq:
  "updateLacLut env i s =
     (case nifti_getField env (niftiReader s) 0 (setActiveLut i (lacReader s)) of
        Inl e \<Rightarrow> Inl (e, s\<lparr>lacReader := setActiveLut i (lacReader s)\<rparr>)
      | Inr data' \<Rightarrow>
          Inr (volumeStage (fieldStage env data' (dimX data') (dimY data') (dimZ data')
                 (s\<lparr>lacReader := setActiveLut i (lacReader s)\<rparr>))))"
  by (simp add: updateLacLut_def fieldStage_def volumeStage_def Let_def split_def split: sum.splits)

subsection \<open>The set-up and the callback in terms of the two stages\<close>

lemma niftiPath_eq:
  "niftiPath env s =
     (if nifti_open env (g_filename s) then
        (case nifti_getField env (Opened (g_filename s)) 0 (lacReader s) of
           Inl e \<Rightarrow> Inl (e, s\<lparr>niftiReader := Opened (g_filename s)\<rparr>)
         | Inr data' \<Rightarrow>
             Inr (fieldStage env data' (dimX data') (dimY data') (dimZ data')
                    (s\<lparr>niftiReader := Opened (g_filename s)\<rparr>)))
      else Inr (s\<lparr>niftiReader := OpenFailed (g_filename s)\<rparr>))"
  by (simp add: niftiPath_def fieldStage_def Let_def split_def split: sum.splits)

lemma loadSource_eq:
  "loadSource env s =
     (if g_dimX s \<noteq> 0 \<and> g_dimY s \<noteq> 0 \<and> g_dimZ s \<noteq> 0 \<and> g_bytesPerCell s \<noteq> 0 then
        if raw_open env (g_filename s) (g_dimX s) (g_dimY s) (g_dimZ s) (g_bytesPerCell s)
        then
          (case raw_getField env
                  (Opened (g_filename s, g_dimX s, g_dimY s, g_dimZ s, g_bytesPerCell s)) 0 of
             Inl e \<Rightarrow>
               Inl (e, s\<lparr>rawReader :=
                          Opened (g_filename s, g_dimX s, g_dimY s, g_dimZ s, g_bytesPerCell s)\<rparr>)
           | Inr data' \<Rightarrow>
               Inr (fieldStage env data' (g_dimX s) (g_dimY s) (g_dimZ s)
                      (s\<lparr>rawReader :=
                          Opened (g_filename s, g_dimX s, g_dimY s, g_dimZ s, g_bytesPerCell s)\<rparr>)))
        else niftiPath env
               (s\<lparr>rawReader :=
                    OpenFailed (g_filename s, g_dimX s, g_dimY s, g_dimZ s, g_bytesPerCell s)\<rparr>)
      else niftiPath env s)"
  by (simp add: loadSource_def fieldStage_def Let_def split_def split: sum.splits)

lemma niftiPath_inv:
  assumes "niftiPath env s = Inr s3"
  shows "world s3 = world s \<and> device s3 = device s \<and>
         next_handle (anari s) \<le> next_handle (anari s3)"
  using assms
  by (auto simp: niftiPath_eq fieldStage_frame fieldStage_next split: if_splits sum.splits)

lemma loadSource_inv:
  assumes "loadSource env s = Inr s3"
  shows "world s3 = world s \<and> device s3 = device s \<and>
         next_handle (anari s) \<le> next_handle (anari s3)"
  using assms
  by (auto simp: loadSource_eq fieldStage_frame fieldStage_next dest: niftiPath_inv
           split: if_splits sum.splits)

lemma setupWindows_eq:
  "setupWindows env s0 =
     (if \<not> loadLibrary env then Inl (LoadLibraryFailed, s0)
      else if \<not> newDevice env then Inl (NoDevice, s0)
      else
        (case loadSource env
                (s0\<lparr>device := Obj 0, world := Obj 1,
                    anari := snd (newObject World new_device),
                    lacReader :=
                      setActiveLut (g_laclutid s0)
                        (read env (if g_laclutfile s0 \<noteq> []
                                   then setFilename (g_laclutfile s0) (lacReader s0)
                                   else lacReader s0))\<rparr>) of
           Inl x \<Rightarrow> Inl x
         | Inr s3 \<Rightarrow> Inr (volumeStage s3)))"
  by (simp add: setupWindows_def initializeANARI_def volumeStage_def Let_def split_def
        newObject_def new_device_def split: sum.splits)

lemma setupWindows_volumeStage:
  assumes "setupWindows env s0 = Inr s"
  shows "\<exists>s3. s = volumeStage s3 \<and> world s3 = Obj 1 \<and> device s3 = Obj 0 \<and>
              2 \<le> next_handle (anari s3)"
proof -
  let ?s2 = "s0\<lparr>device := Obj 0, world := Obj 1,
                    anari := snd (newObject World new_device),
                    lacReader :=
                      setActiveLut (g_laclutid s0)
                        (read env (if g_laclutfile s0 \<noteq> []
                                   then setFilename (g_laclutfile s0) (lacReader s0)
                                   else lacReader s0))\<rparr>"
  from assms obtain s3 where ld: "loadSource env ?s2 = Inr s3" and s: "s = volumeStage s3"
    by (auto simp: setupWindows_eq split: if_splits sum.splits)
  have "next_handle (anari ?s2) = 2"
    by (simp add: newObject_sel new_device_def)
  with loadSource_inv [OF ld] have "world s3 = Obj 1 \<and> device s3 = Obj 0 \<and> 2 \<le> next_handle (anari s3)"
    by simp
  with s show ?thesis by blast
qed

lemma setupWindows_inv:
  assumes "setupWindows env s0 = Inr s"
  shows "world s = Obj 1 \<and> device s = Obj 0 \<and> 2 \<le> next_handle (anari s)"
  using setupWindows_volumeStage [OF assms] by (auto simp: volumeStage_frame)

lemma updateLacLut_inv:
  assumes "updateLacLut env i s = Inr s'"
  shows "world s' = world s \<and> device s' = device s \<and> next_handle (anari s) \<le> next_handle (anari s')"
  using assms
  by (auto simp: updateLacLut_eq volumeStage_frame fieldStage_frame fieldStage_next split: sum.splits)

lemma rebuilds_inv:
  assumes "rebuilds env ids s = Inr s'"
  shows "world s' = world s \<and> device s' = device s \<and> next_handle (anari s) \<le> next_handle (anari s')"
  using assms
proof (induction ids arbitrary: s)
  case Nil
  then show ?case by simp
next
  case (Cons i ids)
  then obtain s1 where u: "updateLacLut env i s = Inr s1" and r: "rebuilds env ids s1 = Inr s'"
    by (auto split: sum.splits)
  from updateLacLut_inv [OF u] Cons.IH [OF r] show ?case by simp
qed

lemma session_inv:
  assumes "session env s0 ids = Inr s"
  shows "world s = Obj 1 \<and> device s = Obj 0 \<and> 2 \<le> next_handle (anari s)"
proof -
  from assms obtain s1 where a: "setupWindows env s0 = Inr s1" and r: "rebuilds env ids s1 = Inr s"
    by (auto simp: session_def split: sum.splits)
  from setupWindows_inv [OF a] rebuilds_inv [OF r] show ?thesis by simp
qed

lemma updateLacLut_volumeStage:
  assumes "updateLacLut env i s = Inr s'"
  shows "\<exists>s3. s' = volumeStage s3 \<and> world s3 = world s \<and> device s3 = device s \<and>
              next_handle (anari s) < next_handle (anari s3) \<and>
              field s3 = Obj (next_handle (anari s)) \<and>
              nifti_getField env (niftiReader s) 0 (setActiveLut i (lacReader s)) = Inr (sdata s3) \<and>
              g_voxelRange s3 = dataRange (sdata s3)"
  using assms
  by (auto simp: updateLacLut_eq fieldStage_frame fieldStage_next split: sum.splits)

lemma volumeStage_last:
  "last (calls (anari (volumeStage s))) = CommitParameters (world s)"
  by (simp add: volumeStage_calls)

lemma volumeStage_object_volume:
  "objects (anari (volumeStage s)) (next_handle (anari s)) = Some (Volume ''transferFunction1D'')"
  by (simp add: volumeStage_objects)

subsection \<open>The example runs\<close>

lemma ex_nifti_1_ok: "setupWindows ex_env (ex_start ''ct.nii'' 0 0 0 0) = Inr ex_nifti_1"
proof -
  have "\<not> isl (setupWindows ex_env (ex_start ''ct.nii'' 0 0 0 0))"
    by (simp add: run_defs stage_defs api_sel ex_defs)
  then show ?thesis by (simp add: ex_nifti_1_def)
qed

lemma ex_nifti_session: "session ex_env (ex_start ''ct.nii'' 0 0 0 0) [] = Inr ex_nifti_1"
  by (simp add: session_def ex_nifti_1_ok)

lemma ex_nifti_2_ok: "updateLacLut ex_env 1 ex_nifti_1 = Inr ex_nifti_2"
proof -
  have "\<not> isl (updateLacLut ex_env 1 ex_nifti_1)"
    by (simp add: run_defs stage_defs api_sel ex_defs)
  then show ?thesis by (simp add: ex_nifti_2_def)
qed

subsection \<open>What a build leaves in the volume and in the field\<close>

lemma volumeStage_params:
  assumes "world s = Obj w" and "w < next_handle (anari s)"
  shows "committed (anari (volumeStage s)) (next_handle (anari s)) ''value'' = Some (PObject (field s))"
    and "committed (anari (volumeStage s)) (next_handle (anari s)) ''field'' = Some (PObject (field s))"
    and "committed (anari (volumeStage s)) (next_handle (anari s)) ''valueRange'' =
           Some (PBox1 (fst (g_voxelRange s)) (snd (g_voxelRange s)))"
    and "paramObject (anari (volumeStage s)) (next_handle (anari s)) ''color'' =
           Some (Array1D (MemVec3 [(0, 0, 1), (0, 1, 0), (1, 0, 0)]) ANARI_FLOAT32_VEC3 3)"
    and "paramObject (anari (volumeStage s)) (next_handle (anari s)) ''opacity'' =
           Some (Array1D (MemF32 [0, 1]) ANARI_FLOAT32 2)"
  by (simp_all add: volumeStage_volume [OF assms] paramObject_def volumeStage_objects)

lemma loadSource_loaded:
  assumes "loadSource env s = Inr s3" and "field s = Null" and "field s3 \<noteq> Null"
  shows "g_voxelRange s3 = dataRange (sdata s3) \<and>
         (raw_getField env (rawReader s3) 0 = Inr (sdata s3) \<or>
          nifti_getField env (niftiReader s3) 0 (lacReader s3) = Inr (sdata s3))"
  using assms
  by (auto simp: loadSource_eq niftiPath_eq fieldStage_frame split: if_splits sum.splits)

lemma setupWindows_loaded:
  assumes "setupWindows env s0 = Inr s1" and "field s0 = Null" and "field s1 \<noteq> Null"
  shows "\<exists>s3. s1 = volumeStage s3 \<and> world s3 = Obj 1 \<and> 2 \<le> next_handle (anari s3) \<and>
              g_voxelRange s3 = dataRange (sdata s3) \<and>
              (raw_getField env (rawReader s3) 0 = Inr (sdata s3) \<or>
               nifti_getField env (niftiReader s3) 0 (lacReader s3) = Inr (sdata s3))"
proof -
  let ?s2 = "s0\<lparr>device := Obj 0, world := Obj 1,
                    anari := snd (newObject World new_device),
                    lacReader :=
                      setActiveLut (g_laclutid s0)
                        (read env (if g_laclutfile s0 \<noteq> []
                                   then setFilename (g_laclutfile s0) (lacReader s0)
                                   else lacReader s0))\<rparr>"
  from assms(1) obtain s3 where ld: "loadSource env ?s2 = Inr s3" and s: "s1 = volumeStage s3"
    by (auto simp: setupWindows_eq split: if_splits sum.splits)
  have n2: "next_handle (anari ?s2) = 2"
    by (simp add: newObject_sel new_device_def)
  have f2: "field ?s2 = Null" using assms(2) by simp
  have f3: "field s3 \<noteq> Null" using assms(3) s by (simp add: volumeStage_frame)
  from loadSource_inv [OF ld] n2 have "world s3 = Obj 1 \<and> 2 \<le> next_handle (anari s3)"
    by simp
  with loadSource_loaded [OF ld f2 f3] s show ?thesis by blast
qed

lemma ex_raw_1_ok: "setupWindows ex_env (ex_start ''grid.raw'' 2 1 1 1) = Inr ex_raw_1"
proof -
  have "\<not> isl (setupWindows ex_env (ex_start ''grid.raw'' 2 1 1 1))"
    by (simp add: run_defs stage_defs api_sel ex_defs)
  then show ?thesis by (simp add: ex_raw_1_def)
qed

lemma ex_raw_2_ok: "updateLacLut ex_env 1 ex_raw_1 = Inr ex_raw_2"
proof -
  have "\<not> isl (updateLacLut ex_env 1 ex_raw_1)"
    by (simp add: run_defs stage_defs api_sel ex_defs ex_raw_1_def)
  then show ?thesis by (simp add: ex_raw_2_def)
qed

lemma ex_none_1_ok: "setupWindows ex_env (ex_start ''missing'' 0 0 0 0) = Inr ex_none_1"
proof -
  have "\<not> isl (setupWindows ex_env (ex_start ''missing'' 0 0 0 0))"
    by (simp add: run_defs stage_defs api_sel ex_defs)
  then show ?thesis by (simp add: ex_none_1_def)
qed

lemma ex_start_startState: "startState (ex_start f x y z b)"
  by (simp add: startState_def ex_start_def)

subsection \<open>The paths of the set-up\<close>

lemma niftiPath_none:
  "\<not> nifti_open env (g_filename s) \<Longrightarrow>
   niftiPath env s = Inr (s\<lparr>niftiReader := OpenFailed (g_filename s)\<rparr>)"
  by (simp add: niftiPath_eq)

lemma loadSource_none:
  assumes "\<not> (g_dimX s \<noteq> 0 \<and> g_dimY s \<noteq> 0 \<and> g_dimZ s \<noteq> 0 \<and> g_bytesPerCell s \<noteq> 0 \<and>
            raw_open env (g_filename s) (g_dimX s) (g_dimY s) (g_dimZ s) (g_bytesPerCell s))"
    and "\<not> nifti_open env (g_filename s)"
  shows "\<exists>s3. loadSource env s = Inr s3 \<and> world s3 = world s \<and> anari s3 = anari s \<and>
              field s3 = field s \<and> g_voxelRange s3 = g_voxelRange s"
proof (cases "g_dimX s \<noteq> 0 \<and> g_dimY s \<noteq> 0 \<and> g_dimZ s \<noteq> 0 \<and> g_bytesPerCell s \<noteq> 0")
  case True
  with assms(1) have
    "\<not> raw_open env (g_filename s) (g_dimX s) (g_dimY s) (g_dimZ s) (g_bytesPerCell s)"
    by blast
  with True assms(2) show ?thesis
    by (simp add: loadSource_eq niftiPath_none)
next
  case False
  then have "loadSource env s = niftiPath env s"
    by (subst loadSource_eq) (simp only: if_False)
  with assms(2) show ?thesis
    by (simp add: niftiPath_none)
qed

lemma loadSource_raw:
  assumes "loadSource env s = Inr s3" and "rawReader s = Unopened" and "rawReader s3 = Opened a"
  shows "niftiReader s3 = niftiReader s \<and> raw_getField env (Opened a) 0 = Inr (sdata s3)"
proof (cases "g_dimX s \<noteq> 0 \<and> g_dimY s \<noteq> 0 \<and> g_dimZ s \<noteq> 0 \<and> g_bytesPerCell s \<noteq> 0 \<and>
      raw_open env (g_filename s) (g_dimX s) (g_dimY s) (g_dimZ s) (g_bytesPerCell s)")
  case True
  with assms(1,3) show ?thesis
    by (auto simp: loadSource_eq fieldStage_frame split: sum.splits)
next
  case False
  then have "loadSource env s = niftiPath env s \<or>
    loadSource env s = niftiPath env (s\<lparr>rawReader :=
       OpenFailed (g_filename s, g_dimX s, g_dimY s, g_dimZ s, g_bytesPerCell s)\<rparr>)"
    by (subst (1 2) loadSource_eq) auto
  with assms show ?thesis
    by (auto simp: niftiPath_eq fieldStage_frame split: if_splits sum.splits)
qed

lemma setupWindows_raw:
  assumes "setupWindows env s0 = Inr s1" and "rawReader s0 = Unopened"
    and "niftiReader s0 = Unopened" and "rawReader s1 = Opened a"
  shows "niftiReader s1 = Unopened \<and> raw_getField env (Opened a) 0 = Inr (sdata s1)"
proof -
  let ?s2 = "s0\<lparr>device := Obj 0, world := Obj 1,
                    anari := snd (newObject World new_device),
                    lacReader :=
                      setActiveLut (g_laclutid s0)
                        (read env (if g_laclutfile s0 \<noteq> []
                                   then setFilename (g_laclutfile s0) (lacReader s0)
                                   else lacReader s0))\<rparr>"
  from assms(1) obtain s3 where ld: "loadSource env ?s2 = Inr s3" and s: "s1 = volumeStage s3"
    by (auto simp: setupWindows_eq split: if_splits sum.splits)
  have r2: "rawReader ?s2 = Unopened" using assms(2) by simp
  have r3: "rawReader s3 = Opened a" using assms(4) s by (simp add: volumeStage_frame)
  from loadSource_raw [OF ld r2 r3] assms(3) s show ?thesis
    by (simp add: volumeStage_frame)
qed

lemma buildField_raw_indep:
  "buildField (env\<lparr>raw_open := ro, raw_getField := rg\<rparr>) data' nx ny nz d =
   buildField env data' nx ny nz d"
  by (simp add: buildField_def Let_def split_def)

lemma ex_raw3_1_ok: "setupWindows ex_env (ex_start ''grid.raw'' 2 1 1 3) = Inr ex_raw3_1"
proof -
  have "\<not> isl (setupWindows ex_env (ex_start ''grid.raw'' 2 1 1 3))"
    by (simp add: run_defs stage_defs api_sel ex_defs)
  then show ?thesis by (simp add: ex_raw3_1_def)
qed

subsection \<open>The field that a build leaves\<close>








subsection \<open>Releases\<close>

lemma releases_volumeStage:
  "releases (calls (anari (volumeStage s))) =
     releases (calls (anari s)) @
     [Obj (next_handle (anari s) + 1), Obj (next_handle (anari s) + 2),
      Obj (next_handle (anari s) + 3), Obj (next_handle (anari s))]"
  by (simp add: volumeStage_calls releases_append)

lemma releases_fieldStage:
  "bytesPerCell data' \<in> {1, 2, 4} \<Longrightarrow>
   releases (calls (anari (fieldStage env data' nx ny nz s))) =
     releases (calls (anari s)) @ [Obj (next_handle (anari s) + 1)]"
  by (simp add: fieldStage_calls releases_append)

lemma handedOut_mono: "handedOut n h \<Longrightarrow> n \<le> m \<Longrightarrow> handedOut m h"
  by (cases h) simp_all

lemma handedOut_fresh:
  assumes "\<forall>h \<in> set R. handedOut n h" and "n \<le> k"
  shows "Obj k \<notin> set R"
  using assms by auto

lemma releaseInv_volumeStage:
  assumes "releaseInv s"
  shows "releaseInv (volumeStage s)"
proof -
  let ?n = "next_handle (anari s)"
  let ?R = "releases (calls (anari s))"
  from assms have b: "\<forall>h \<in> set ?R. handedOut ?n h"
    and d: "distinct ?R" and n: "2 \<le> ?n" and w: "world s = Obj 1" "device s = Obj 0"
    and f: "field s = Null \<or> handedOut ?n (field s)" and fr: "field s \<notin> set ?R"
    by (simp_all add: releaseInv_def)
  note fresh = handedOut_fresh [OF b]
  have d': "distinct (?R @ [Obj (?n + 1), Obj (?n + 2), Obj (?n + 3), Obj ?n])"
    using d fresh by simp
  have b': "\<forall>h \<in> set (?R @ [Obj (?n + 1), Obj (?n + 2), Obj (?n + 3), Obj ?n]).
             handedOut (?n + 4) h"
    using b n by (auto intro: handedOut_mono)
  have f': "field s = Null \<or> handedOut (?n + 4) (field s)"
    using f by (auto intro: handedOut_mono)
  have fr': "field s \<notin> set (?R @ [Obj (?n + 1), Obj (?n + 2), Obj (?n + 3), Obj ?n])"
    using f fr by (cases "field s") auto
  show ?thesis
    unfolding releaseInv_def
    using w n d' b' f' fr' by (simp add: volumeStage_frame releases_volumeStage)
qed

lemma releaseInv_fieldStage:
  assumes "releaseInv s" and "bytesPerCell data' \<in> {1, 2, 4}"
  shows "releaseInv (fieldStage env data' nx ny nz s)"
proof -
  let ?n = "next_handle (anari s)"
  let ?R = "releases (calls (anari s))"
  from assms(1) have b: "\<forall>h \<in> set ?R. handedOut ?n h"
    and d: "distinct ?R" and n: "2 \<le> ?n" and w: "world s = Obj 1" "device s = Obj 0"
    by (simp_all add: releaseInv_def)
  note fresh = handedOut_fresh [OF b]
  have d': "distinct (?R @ [Obj (?n + 1)])"
    using d fresh by simp
  have b': "\<forall>h \<in> set (?R @ [Obj (?n + 1)]). handedOut (?n + 2) h"
    using b n by (auto intro: handedOut_mono)
  have f': "Obj ?n \<notin> set (?R @ [Obj (?n + 1)])"
    using fresh by simp
  show ?thesis
    unfolding releaseInv_def
    using w n d' b' f' assms(2)
    by (simp add: fieldStage_frame fieldStage_next releases_fieldStage)
qed

lemma releaseInv_readers:
  "releaseInv (s\<lparr>lacReader := l\<rparr>) = releaseInv s"
  "releaseInv (s\<lparr>rawReader := r\<rparr>) = releaseInv s"
  "releaseInv (s\<lparr>niftiReader := q\<rparr>) = releaseInv s"
  by (simp_all add: releaseInv_def)

lemma releaseInv_updateLacLut:
  assumes "releaseInv s" and "updateLacLut env i s = Inr s'"
    and "\<forall>r j l f. nifti_getField env r j l = Inr f \<longrightarrow> bytesPerCell f \<in> {1, 2, 4}"
  shows "releaseInv s'"
proof -
  from assms(2) obtain d where
    g: "nifti_getField env (niftiReader s) 0 (setActiveLut i (lacReader s)) = Inr d"
    and s': "s' = volumeStage (fieldStage env d (dimX d) (dimY d) (dimZ d)
                    (s\<lparr>lacReader := setActiveLut i (lacReader s)\<rparr>))"
    by (auto simp: updateLacLut_eq split: sum.splits)
  from g assms(3) have "bytesPerCell d \<in> {1, 2, 4}" by blast
  with assms(1) show ?thesis
    unfolding s'
    by (intro releaseInv_volumeStage releaseInv_fieldStage) (simp_all add: releaseInv_readers)
qed

lemma releaseInv_niftiPath:
  assumes "releaseInv s" and "niftiPath env s = Inr s3"
    and "\<forall>r j l f. nifti_getField env r j l = Inr f \<longrightarrow> bytesPerCell f \<in> {1, 2, 4}"
  shows "releaseInv s3"
proof (cases "nifti_open env (g_filename s)")
  case True
  with assms(2) obtain d where
    g: "nifti_getField env (Opened (g_filename s)) 0 (lacReader s) = Inr d"
    and s3: "s3 = fieldStage env d (dimX d) (dimY d) (dimZ d)
                    (s\<lparr>niftiReader := Opened (g_filename s)\<rparr>)"
    by (auto simp: niftiPath_eq split: sum.splits)
  from g assms(3) have "bytesPerCell d \<in> {1, 2, 4}" by blast
  with assms(1) show ?thesis
    unfolding s3 by (intro releaseInv_fieldStage) (simp_all add: releaseInv_readers)
next
  case False
  with assms(1,2) show ?thesis
    by (auto simp: niftiPath_eq releaseInv_readers)
qed

lemma releaseInv_loadSource:
  assumes "releaseInv s" and "loadSource env s = Inr s3"
    and "\<forall>r j l f. nifti_getField env r j l = Inr f \<longrightarrow> bytesPerCell f \<in> {1, 2, 4}"
    and "\<forall>r j f. raw_getField env r j = Inr f \<longrightarrow> bytesPerCell f \<in> {1, 2, 4}"
  shows "releaseInv s3"
proof (cases "g_dimX s \<noteq> 0 \<and> g_dimY s \<noteq> 0 \<and> g_dimZ s \<noteq> 0 \<and> g_bytesPerCell s \<noteq> 0")
  case dims: True
  show ?thesis
  proof (cases "raw_open env (g_filename s) (g_dimX s) (g_dimY s) (g_dimZ s) (g_bytesPerCell s)")
    case True
    let ?a = "(g_filename s, g_dimX s, g_dimY s, g_dimZ s, g_bytesPerCell s)"
    from True dims assms(2) obtain d where
      g: "raw_getField env (Opened ?a) 0 = Inr d"
      and s3: "s3 = fieldStage env d (g_dimX s) (g_dimY s) (g_dimZ s)
                      (s\<lparr>rawReader := Opened ?a\<rparr>)"
      by (auto simp: loadSource_eq split: sum.splits)
    from g assms(4) have "bytesPerCell d \<in> {1, 2, 4}" by blast
    with assms(1) show ?thesis
      unfolding s3 by (intro releaseInv_fieldStage) (simp_all add: releaseInv_readers)
  next
    case False
    with dims assms(2) have
      "niftiPath env (s\<lparr>rawReader :=
         OpenFailed (g_filename s, g_dimX s, g_dimY s, g_dimZ s, g_bytesPerCell s)\<rparr>) = Inr s3"
      by (simp add: loadSource_eq)
    with assms(1,3) show ?thesis
      by (intro releaseInv_niftiPath [of _ env s3]) (simp_all add: releaseInv_readers)
  qed
next
  case False
  then have "loadSource env s = niftiPath env s"
    by (subst loadSource_eq) (simp only: if_False)
  with assms(1,2,3) show ?thesis
    by (intro releaseInv_niftiPath [of s env s3]) simp_all
qed

lemma releaseInv_setupWindows:
  assumes "startState s0" and "setupWindows env s0 = Inr s1"
    and "\<forall>r j l f. nifti_getField env r j l = Inr f \<longrightarrow> bytesPerCell f \<in> {1, 2, 4}"
    and "\<forall>r j f. raw_getField env r j = Inr f \<longrightarrow> bytesPerCell f \<in> {1, 2, 4}"
  shows "releaseInv s1"
proof -
  let ?s2 = "s0\<lparr>device := Obj 0, world := Obj 1,
                    anari := snd (newObject World new_device),
                    lacReader :=
                      setActiveLut (g_laclutid s0)
                        (read env (if g_laclutfile s0 \<noteq> []
                                   then setFilename (g_laclutfile s0) (lacReader s0)
                                   else lacReader s0))\<rparr>"
  from assms(2) obtain s3 where ld: "loadSource env ?s2 = Inr s3" and s: "s1 = volumeStage s3"
    by (auto simp: setupWindows_eq split: if_splits sum.splits)
  have "releaseInv ?s2"
    using assms(1) by (simp add: releaseInv_def startState_def newObject_sel new_device_def)
  from releaseInv_loadSource [OF this ld assms(3,4)] show ?thesis
    unfolding s by (rule releaseInv_volumeStage)
qed

lemma releaseInv_rebuilds:
  assumes "releaseInv s" and "rebuilds env ids s = Inr s'"
    and "\<forall>r j l f. nifti_getField env r j l = Inr f \<longrightarrow> bytesPerCell f \<in> {1, 2, 4}"
  shows "releaseInv s'"
  using assms(1,2)
proof (induction ids arbitrary: s)
  case Nil
  then show ?case by simp
next
  case (Cons i ids)
  from Cons.prems(2) obtain s1 where u: "updateLacLut env i s = Inr s1"
    and r: "rebuilds env ids s1 = Inr s'"
    by (auto split: sum.splits)
  from releaseInv_updateLacLut [OF Cons.prems(1) u assms(3)] r show ?case
    by (rule Cons.IH)
qed

lemma releaseInv_session:
  assumes "startState s0" and "session env s0 ids = Inr s"
    and "\<forall>r j l f. nifti_getField env r j l = Inr f \<longrightarrow> bytesPerCell f \<in> {1, 2, 4}"
    and "\<forall>r j f. raw_getField env r j = Inr f \<longrightarrow> bytesPerCell f \<in> {1, 2, 4}"
  shows "releaseInv s"
proof -
  from assms(2) obtain s1 where a: "setupWindows env s0 = Inr s1"
    and r: "rebuilds env ids s1 = Inr s"
    by (auto simp: session_def split: sum.splits)
  from releaseInv_setupWindows [OF assms(1) a assms(3,4)] r assms(3) show ?thesis
    by (rule releaseInv_rebuilds)
qed

lemma volumeStage_tail:
  "drop (length (calls (anari (volumeStage s))) - 4) (calls (anari (volumeStage s))) =
     [SetParameter (world s) ''volume'' (PObject (Obj (next_handle (anari s) + 3))),
      Release (Obj (next_handle (anari s) + 3)),
      Release (Obj (next_handle (anari s))),
      CommitParameters (world s)]"
  by (simp add: volumeStage_calls)

lemma ex_session_1_ok:
  "session ex_env_nifti (ex_start ''ct.nii'' 0 0 0 0) [1] = Inr ex_session_1"
proof -
  have "\<not> isl (session ex_env_nifti (ex_start ''ct.nii'' 0 0 0 0) [1])"
    by (simp add: run_defs stage_defs api_sel ex_defs ex_env_nifti_def)
  then show ?thesis by (simp add: ex_session_1_def)
qed

lemma ex_session_2_ok: "updateLacLut ex_env_nifti 0 ex_session_1 = Inr ex_session_2"
proof -
  have "\<not> isl (updateLacLut ex_env_nifti 0 ex_session_1)"
    by (simp add: run_defs stage_defs api_sel ex_defs ex_env_nifti_def ex_session_1_def)
  then show ?thesis by (simp add: ex_session_2_def)
qed

section \<open>The claims\<close>

text \<open>
  Claim C5. After a set-up that returns, and after a callback that returns in any session,
  the committed \<^verbatim>\<open>"volume"\<close> parameter of the world is an array of exactly one
  handle; that handle is a transfer-function volume, in the callback one whose handle the
  device had not handed out before the call; and the last call made is the commit of
  the world.
\<close>

theorem one_volume_bound:
  "(setupWindows env s0 = Inr s1 \<longrightarrow>
      (\<exists>k. boundVolumes s1 = Some [Obj k] \<and>
           objects (anari s1) k = Some (Volume ''transferFunction1D'') \<and>
           last (calls (anari s1)) = CommitParameters (world s1))) \<and>
   (session env s0 ids = Inr s \<and> updateLacLut env i s = Inr s' \<longrightarrow>
      (\<exists>k. boundVolumes s' = Some [Obj k] \<and> next_handle (anari s) \<le> k \<and>
           objects (anari s') k = Some (Volume ''transferFunction1D'') \<and>
           last (calls (anari s')) = CommitParameters (world s')))"
proof (intro conjI impI)
  assume "setupWindows env s0 = Inr s1"
  then obtain s3 where s1: "s1 = volumeStage s3" and w: "world s3 = Obj 1"
    using setupWindows_volumeStage by blast
  show "\<exists>k. boundVolumes s1 = Some [Obj k] \<and>
           objects (anari s1) k = Some (Volume ''transferFunction1D'') \<and>
           last (calls (anari s1)) = CommitParameters (world s1)"
    unfolding s1
    using volumeStage_bound [OF w] volumeStage_object_volume [of s3] volumeStage_last [of s3]
    by (auto simp: volumeStage_frame)
next
  assume a: "session env s0 ids = Inr s \<and> updateLacLut env i s = Inr s'"
  then have ws: "world s = Obj 1" using session_inv by blast
  from a obtain s3 where s': "s' = volumeStage s3" and w: "world s3 = world s"
    and n: "next_handle (anari s) < next_handle (anari s3)"
    using updateLacLut_volumeStage by blast
  from w ws have w3: "world s3 = Obj 1" by simp
  show "\<exists>k. boundVolumes s' = Some [Obj k] \<and> next_handle (anari s) \<le> k \<and>
           objects (anari s') k = Some (Volume ''transferFunction1D'') \<and>
           last (calls (anari s')) = CommitParameters (world s')"
    unfolding s'
    using volumeStage_bound [OF w3] volumeStage_object_volume [of s3] volumeStage_last [of s3] n
    by (auto simp: volumeStage_frame)
qed

theorem one_volume_bound_witness:
  "setupWindows ex_env (ex_start ''ct.nii'' 0 0 0 0) = Inr ex_nifti_1 \<and>
   session ex_env (ex_start ''ct.nii'' 0 0 0 0) [] = Inr ex_nifti_1 \<and>
   updateLacLut ex_env 1 ex_nifti_1 = Inr ex_nifti_2 \<and>
   (\<exists>k. boundVolumes ex_nifti_1 = Some [Obj k] \<and>
        objects (anari ex_nifti_1) k = Some (Volume ''transferFunction1D'')) \<and>
   (\<exists>k. boundVolumes ex_nifti_2 = Some [Obj k] \<and> next_handle (anari ex_nifti_1) \<le> k \<and>
        objects (anari ex_nifti_2) k = Some (Volume ''transferFunction1D''))"
  using one_volume_bound [of ex_env "ex_start ''ct.nii'' 0 0 0 0" ex_nifti_1 "[]" ex_nifti_1 1 ex_nifti_2]
    ex_nifti_1_ok ex_nifti_session ex_nifti_2_ok
  by blast

text \<open>
  Claim C7. The volume that a build binds has its \<^verbatim>\<open>"value"\<close> parameter and its
  \<^verbatim>\<open>"field"\<close> parameter committed to the same handle, the field handle held in the
  state, in the set-up and in every call of the callback; in the callback this is the
  field that the call has just created.
\<close>

theorem volume_value_and_field:
  "(setupWindows env s0 = Inr s1 \<longrightarrow>
      (\<exists>k. boundVolumes s1 = Some [Obj k] \<and>
           committed (anari s1) k ''value'' = Some (PObject (field s1)) \<and>
           committed (anari s1) k ''field'' = Some (PObject (field s1)))) \<and>
   (session env s0 ids = Inr s \<and> updateLacLut env i s = Inr s' \<longrightarrow>
      (\<exists>k. boundVolumes s' = Some [Obj k] \<and> next_handle (anari s) \<le> k \<and>
           field s' = Obj (next_handle (anari s)) \<and>
           committed (anari s') k ''value'' = Some (PObject (field s')) \<and>
           committed (anari s') k ''field'' = Some (PObject (field s'))))"
proof (intro conjI impI)
  assume "setupWindows env s0 = Inr s1"
  then obtain s3 where s1: "s1 = volumeStage s3" and w: "world s3 = Obj 1"
    and n: "2 \<le> next_handle (anari s3)"
    using setupWindows_volumeStage by blast
  from n have n': "1 < next_handle (anari s3)" by simp
  show "\<exists>k. boundVolumes s1 = Some [Obj k] \<and>
           committed (anari s1) k ''value'' = Some (PObject (field s1)) \<and>
           committed (anari s1) k ''field'' = Some (PObject (field s1))"
    unfolding s1
    using volumeStage_bound [OF w] volumeStage_params(1,2) [OF w n']
    by (auto simp: volumeStage_frame)
next
  assume a: "session env s0 ids = Inr s \<and> updateLacLut env i s = Inr s'"
  then have ws: "world s = Obj 1" and ns: "2 \<le> next_handle (anari s)"
    using session_inv by blast+
  from a obtain s3 where s': "s' = volumeStage s3" and w: "world s3 = world s"
    and n: "next_handle (anari s) < next_handle (anari s3)"
    and f: "field s3 = Obj (next_handle (anari s))"
    using updateLacLut_volumeStage by blast
  from w ws have w3: "world s3 = Obj 1" by simp
  from n ns have n3: "1 < next_handle (anari s3)" by simp
  show "\<exists>k. boundVolumes s' = Some [Obj k] \<and> next_handle (anari s) \<le> k \<and>
           field s' = Obj (next_handle (anari s)) \<and>
           committed (anari s') k ''value'' = Some (PObject (field s')) \<and>
           committed (anari s') k ''field'' = Some (PObject (field s'))"
    unfolding s'
    using volumeStage_bound [OF w3] volumeStage_params(1,2) [OF w3 n3] n f
    by (auto simp: volumeStage_frame)
qed

theorem volume_value_and_field_witness:
  "setupWindows ex_env (ex_start ''ct.nii'' 0 0 0 0) = Inr ex_nifti_1 \<and>
   session ex_env (ex_start ''ct.nii'' 0 0 0 0) [] = Inr ex_nifti_1 \<and>
   updateLacLut ex_env 1 ex_nifti_1 = Inr ex_nifti_2 \<and>
   (\<exists>k. boundVolumes ex_nifti_1 = Some [Obj k] \<and>
        committed (anari ex_nifti_1) k ''value'' = Some (PObject (field ex_nifti_1)) \<and>
        committed (anari ex_nifti_1) k ''field'' = Some (PObject (field ex_nifti_1))) \<and>
   (\<exists>k. boundVolumes ex_nifti_2 = Some [Obj k] \<and>
        committed (anari ex_nifti_2) k ''value'' = Some (PObject (field ex_nifti_2)) \<and>
        committed (anari ex_nifti_2) k ''field'' = Some (PObject (field ex_nifti_2)))"
  using volume_value_and_field [of ex_env "ex_start ''ct.nii'' 0 0 0 0" ex_nifti_1 "[]" ex_nifti_1 1 ex_nifti_2]
    ex_nifti_1_ok ex_nifti_session ex_nifti_2_ok
  by blast

text \<open>
  Claim C8. The volume that a build binds has as \<^verbatim>\<open>"color"\<close> an array of exactly
  three colours, blue, green, red in this order, and as \<^verbatim>\<open>"opacity"\<close> an array of
  exactly two opacities, 0 then 1, in the set-up and in every call of the callback.
\<close>

theorem color_ramp_fixed:
  "(setupWindows env s0 = Inr s1 \<longrightarrow>
      (\<exists>k. boundVolumes s1 = Some [Obj k] \<and>
           paramObject (anari s1) k ''color'' =
             Some (Array1D (MemVec3 [(0, 0, 1), (0, 1, 0), (1, 0, 0)]) ANARI_FLOAT32_VEC3 3) \<and>
           paramObject (anari s1) k ''opacity'' =
             Some (Array1D (MemF32 [0, 1]) ANARI_FLOAT32 2))) \<and>
   (session env s0 ids = Inr s \<and> updateLacLut env i s = Inr s' \<longrightarrow>
      (\<exists>k. boundVolumes s' = Some [Obj k] \<and> next_handle (anari s) \<le> k \<and>
           paramObject (anari s') k ''color'' =
             Some (Array1D (MemVec3 [(0, 0, 1), (0, 1, 0), (1, 0, 0)]) ANARI_FLOAT32_VEC3 3) \<and>
           paramObject (anari s') k ''opacity'' =
             Some (Array1D (MemF32 [0, 1]) ANARI_FLOAT32 2)))"
proof (intro conjI impI)
  assume "setupWindows env s0 = Inr s1"
  then obtain s3 where s1: "s1 = volumeStage s3" and w: "world s3 = Obj 1"
    and n: "2 \<le> next_handle (anari s3)"
    using setupWindows_volumeStage by blast
  from n have n': "1 < next_handle (anari s3)" by simp
  show "\<exists>k. boundVolumes s1 = Some [Obj k] \<and>
           paramObject (anari s1) k ''color'' =
             Some (Array1D (MemVec3 [(0, 0, 1), (0, 1, 0), (1, 0, 0)]) ANARI_FLOAT32_VEC3 3) \<and>
           paramObject (anari s1) k ''opacity'' =
             Some (Array1D (MemF32 [0, 1]) ANARI_FLOAT32 2)"
    unfolding s1
    using volumeStage_bound [OF w] volumeStage_params(4,5) [OF w n']
    by blast
next
  assume a: "session env s0 ids = Inr s \<and> updateLacLut env i s = Inr s'"
  then have ws: "world s = Obj 1" and ns: "2 \<le> next_handle (anari s)"
    using session_inv by blast+
  from a obtain s3 where s': "s' = volumeStage s3" and w: "world s3 = world s"
    and n: "next_handle (anari s) < next_handle (anari s3)"
    using updateLacLut_volumeStage by blast
  from w ws have w3: "world s3 = Obj 1" by simp
  from n ns have n3: "1 < next_handle (anari s3)" by simp
  from n have n4: "next_handle (anari s) \<le> next_handle (anari s3)" by simp
  show "\<exists>k. boundVolumes s' = Some [Obj k] \<and> next_handle (anari s) \<le> k \<and>
           paramObject (anari s') k ''color'' =
             Some (Array1D (MemVec3 [(0, 0, 1), (0, 1, 0), (1, 0, 0)]) ANARI_FLOAT32_VEC3 3) \<and>
           paramObject (anari s') k ''opacity'' =
             Some (Array1D (MemF32 [0, 1]) ANARI_FLOAT32 2)"
    unfolding s'
    using volumeStage_bound [OF w3] volumeStage_params(4,5) [OF w3 n3] n4
    by blast
qed

theorem color_ramp_fixed_witness:
  "setupWindows ex_env (ex_start ''ct.nii'' 0 0 0 0) = Inr ex_nifti_1 \<and>
   session ex_env (ex_start ''ct.nii'' 0 0 0 0) [] = Inr ex_nifti_1 \<and>
   updateLacLut ex_env 1 ex_nifti_1 = Inr ex_nifti_2 \<and>
   (\<exists>k. boundVolumes ex_nifti_1 = Some [Obj k] \<and>
        paramObject (anari ex_nifti_1) k ''color'' =
          Some (Array1D (MemVec3 [(0, 0, 1), (0, 1, 0), (1, 0, 0)]) ANARI_FLOAT32_VEC3 3) \<and>
        paramObject (anari ex_nifti_1) k ''opacity'' =
          Some (Array1D (MemF32 [0, 1]) ANARI_FLOAT32 2)) \<and>
   (\<exists>k. boundVolumes ex_nifti_2 = Some [Obj k] \<and>
        paramObject (anari ex_nifti_2) k ''color'' =
          Some (Array1D (MemVec3 [(0, 0, 1), (0, 1, 0), (1, 0, 0)]) ANARI_FLOAT32_VEC3 3) \<and>
        paramObject (anari ex_nifti_2) k ''opacity'' =
          Some (Array1D (MemF32 [0, 1]) ANARI_FLOAT32 2))"
  using color_ramp_fixed [of ex_env "ex_start ''ct.nii'' 0 0 0 0" ex_nifti_1 "[]" ex_nifti_1 1 ex_nifti_2]
    ex_nifti_1_ok ex_nifti_session ex_nifti_2_ok
  by blast

text \<open>
  Claim C6. When the set-up has loaded a field, and whenever the callback has fetched one,
  the volume that the build binds has the committed \<^verbatim>\<open>"valueRange"\<close> (low, high) of
  the data range of that field, which is the field a reader returned and the state holds
  in \<^verbatim>\<open>sdata\<close>. In the example the cells span \<open>-1\<close> to \<open>3.5\<close> and so does the
  committed range.
\<close>

theorem value_range_propagated:
  "(field s0 = Null \<and> setupWindows env s0 = Inr s1 \<and> field s1 \<noteq> Null \<longrightarrow>
      (raw_getField env (rawReader s1) 0 = Inr (sdata s1) \<or>
       nifti_getField env (niftiReader s1) 0 (lacReader s1) = Inr (sdata s1)) \<and>
      (\<exists>k. boundVolumes s1 = Some [Obj k] \<and>
           committed (anari s1) k ''valueRange'' =
             Some (PBox1 (fst (dataRange (sdata s1))) (snd (dataRange (sdata s1)))))) \<and>
   (session env s0 ids = Inr s \<and>
    nifti_getField env (niftiReader s) 0 (setActiveLut i (lacReader s)) = Inr data' \<longrightarrow>
      (\<exists>s' k. updateLacLut env i s = Inr s' \<and> sdata s' = data' \<and>
           boundVolumes s' = Some [Obj k] \<and> next_handle (anari s) \<le> k \<and>
           committed (anari s') k ''valueRange'' =
             Some (PBox1 (fst (dataRange data')) (snd (dataRange data')))))"
proof (intro conjI impI)
  assume a: "field s0 = Null \<and> setupWindows env s0 = Inr s1 \<and> field s1 \<noteq> Null"
  then obtain s3 where s1: "s1 = volumeStage s3" and w: "world s3 = Obj 1"
    and n: "2 \<le> next_handle (anari s3)"
    and r: "g_voxelRange s3 = dataRange (sdata s3)"
    and g: "raw_getField env (rawReader s3) 0 = Inr (sdata s3) \<or>
            nifti_getField env (niftiReader s3) 0 (lacReader s3) = Inr (sdata s3)"
    using setupWindows_loaded by blast
  from n have n': "1 < next_handle (anari s3)" by simp
  from g show "raw_getField env (rawReader s1) 0 = Inr (sdata s1) \<or>
       nifti_getField env (niftiReader s1) 0 (lacReader s1) = Inr (sdata s1)"
    by (simp add: s1 volumeStage_frame)
  show "\<exists>k. boundVolumes s1 = Some [Obj k] \<and>
           committed (anari s1) k ''valueRange'' =
             Some (PBox1 (fst (dataRange (sdata s1))) (snd (dataRange (sdata s1))))"
    unfolding s1
    using volumeStage_bound [OF w] volumeStage_params(3) [OF w n'] r
    by (auto simp: volumeStage_frame)
next
  assume a: "session env s0 ids = Inr s \<and>
    nifti_getField env (niftiReader s) 0 (setActiveLut i (lacReader s)) = Inr data'"
  then have ws: "world s = Obj 1" and ns: "2 \<le> next_handle (anari s)"
    using session_inv by blast+
  let ?s3 = "fieldStage env data' (dimX data') (dimY data') (dimZ data')
               (s\<lparr>lacReader := setActiveLut i (lacReader s)\<rparr>)"
  from a have u: "updateLacLut env i s = Inr (volumeStage ?s3)"
    by (simp add: updateLacLut_eq)
  have w3: "world ?s3 = Obj 1" using ws by (simp add: fieldStage_frame)
  have n3: "1 < next_handle (anari ?s3)" using ns by (simp add: fieldStage_next)
  have n4: "next_handle (anari s) \<le> next_handle (anari ?s3)" by (simp add: fieldStage_next)
  have r: "g_voxelRange ?s3 = dataRange data'" by (simp add: fieldStage_frame)
  have d: "sdata (volumeStage ?s3) = data'" by (simp add: volumeStage_frame fieldStage_frame)
  from u d volumeStage_bound [OF w3] volumeStage_params(3) [OF w3 n3] r n4
  show "\<exists>s' k. updateLacLut env i s = Inr s' \<and> sdata s' = data' \<and>
           boundVolumes s' = Some [Obj k] \<and> next_handle (anari s) \<le> k \<and>
           committed (anari s') k ''valueRange'' =
             Some (PBox1 (fst (dataRange data')) (snd (dataRange data')))"
    by auto
qed

theorem value_range_propagated_witness:
  "field (ex_start ''ct.nii'' 0 0 0 0) = Null \<and>
   setupWindows ex_env (ex_start ''ct.nii'' 0 0 0 0) = Inr ex_nifti_1 \<and>
   field ex_nifti_1 \<noteq> Null \<and>
   session ex_env (ex_start ''ct.nii'' 0 0 0 0) [] = Inr ex_nifti_1 \<and>
   nifti_getField ex_env (niftiReader ex_nifti_1) 0 (setActiveLut 1 (lacReader ex_nifti_1)) =
     Inr ex_field \<and>
   dataF32 ex_field = [-1, 3.5] \<and>
   (\<exists>k. boundVolumes ex_nifti_1 = Some [Obj k] \<and>
        committed (anari ex_nifti_1) k ''valueRange'' = Some (PBox1 (-1) 3.5)) \<and>
   (\<exists>k. boundVolumes ex_nifti_2 = Some [Obj k] \<and>
        committed (anari ex_nifti_2) k ''valueRange'' = Some (PBox1 (-1) 3.5))"
proof -
  have h1: "field (ex_start ''ct.nii'' 0 0 0 0) = Null"
    by (simp add: ex_start_def)
  have h2: "field ex_nifti_1 \<noteq> Null"
    by (simp add: run_defs stage_defs api_sel ex_defs)
  have h3: "nifti_getField ex_env (niftiReader ex_nifti_1) 0
              (setActiveLut 1 (lacReader ex_nifti_1)) = Inr ex_field"
    by (simp add: run_defs stage_defs api_sel ex_env_def ex_start_def ex_nifti_1_def)
  have h4: "sdata ex_nifti_1 = ex_field"
    by (simp add: run_defs stage_defs api_sel ex_env_def ex_start_def ex_nifti_1_def)
  have h5: "dataRange ex_field = (-1, 3.5)" "dataF32 ex_field = [-1, 3.5]"
    by (simp_all add: ex_field_def)
  from value_range_propagated [of "ex_start ''ct.nii'' 0 0 0 0" ex_env ex_nifti_1 "[]" ex_nifti_1
      1 ex_field]
    h1 h2 h3 h4 h5 ex_nifti_1_ok ex_nifti_session ex_nifti_2_ok
  show ?thesis by auto
qed

text \<open>
  Claim C10. Entered in the start state, with a device available, the set-up returns also
  when neither reader opens the file: the field handle stays null, and the world ends with a
  committed array of one volume whose \<^verbatim>\<open>"field"\<close> and \<^verbatim>\<open>"value"\<close> are the null handle
  and whose \<^verbatim>\<open>"valueRange"\<close> is the zero-initialised (0, 0).
\<close>

theorem no_source_setup:
  assumes "startState s0" and "loadLibrary env" and "newDevice env"
    and "\<not> (g_dimX s0 \<noteq> 0 \<and> g_dimY s0 \<noteq> 0 \<and> g_dimZ s0 \<noteq> 0 \<and> g_bytesPerCell s0 \<noteq> 0 \<and>
            raw_open env (g_filename s0) (g_dimX s0) (g_dimY s0) (g_dimZ s0) (g_bytesPerCell s0))"
    and "\<not> nifti_open env (g_filename s0)"
  shows "\<exists>s k. setupWindows env s0 = Inr s \<and> field s = Null \<and>
           boundVolumes s = Some [Obj k] \<and>
           objects (anari s) k = Some (Volume ''transferFunction1D'') \<and>
           committed (anari s) k ''field'' = Some (PObject Null) \<and>
           committed (anari s) k ''value'' = Some (PObject Null) \<and>
           committed (anari s) k ''valueRange'' = Some (PBox1 0 0)"
proof -
  let ?s2 = "s0\<lparr>device := Obj 0, world := Obj 1,
                    anari := snd (newObject World new_device),
                    lacReader :=
                      setActiveLut (g_laclutid s0)
                        (read env (if g_laclutfile s0 \<noteq> []
                                   then setFilename (g_laclutfile s0) (lacReader s0)
                                   else lacReader s0))\<rparr>"
  have "\<exists>s3. loadSource env ?s2 = Inr s3 \<and> world s3 = world ?s2 \<and> anari s3 = anari ?s2 \<and>
              field s3 = field ?s2 \<and> g_voxelRange s3 = g_voxelRange ?s2"
    using assms(4,5) by (intro loadSource_none) simp_all
  then have "\<exists>s3. loadSource env ?s2 = Inr s3 \<and> world s3 = Obj 1 \<and>
          next_handle (anari s3) = 2 \<and> field s3 = Null \<and> g_voxelRange s3 = (0, 0)"
    using assms(1) by (auto simp: startState_def newObject_sel new_device_def)
  then obtain s3 where ld: "loadSource env ?s2 = Inr s3" and w: "world s3 = Obj 1"
    and n2: "next_handle (anari s3) = 2" and f: "field s3 = Null"
    and g: "g_voxelRange s3 = (0, 0)"
    by blast
  from assms(2,3) ld have u: "setupWindows env s0 = Inr (volumeStage s3)"
    by (simp add: setupWindows_eq)
  from n2 have n: "1 < next_handle (anari s3)" by simp
  from u volumeStage_bound [OF w] volumeStage_object_volume [of s3]
    volumeStage_params(1,2,3) [OF w n] f g
  show ?thesis
    by (auto simp: volumeStage_frame)
qed

theorem no_source_setup_witness:
  "startState (ex_start ''missing'' 0 0 0 0) \<and> loadLibrary ex_env \<and> newDevice ex_env \<and>
   \<not> nifti_open ex_env ''missing'' \<and> \<not> raw_open ex_env ''missing'' 0 0 0 0 \<and>
   setupWindows ex_env (ex_start ''missing'' 0 0 0 0) = Inr ex_none_1 \<and>
   field ex_none_1 = Null \<and>
   (\<exists>k. boundVolumes ex_none_1 = Some [Obj k] \<and>
        committed (anari ex_none_1) k ''field'' = Some (PObject Null) \<and>
        committed (anari ex_none_1) k ''valueRange'' = Some (PBox1 0 0))"
proof -
  let ?s0 = "ex_start ''missing'' 0 0 0 0"
  have h1: "startState ?s0" by (rule ex_start_startState)
  have h2: "loadLibrary ex_env" and h3: "newDevice ex_env"
    and h6: "\<not> nifti_open ex_env ''missing''" and h7: "\<not> raw_open ex_env ''missing'' 0 0 0 0"
    by (simp_all add: ex_env_def)
  have h4: "\<not> (g_dimX ?s0 \<noteq> 0 \<and> g_dimY ?s0 \<noteq> 0 \<and> g_dimZ ?s0 \<noteq> 0 \<and> g_bytesPerCell ?s0 \<noteq> 0 \<and>
            raw_open ex_env (g_filename ?s0) (g_dimX ?s0) (g_dimY ?s0) (g_dimZ ?s0)
              (g_bytesPerCell ?s0))"
    by (simp add: ex_start_def)
  have h5: "\<not> nifti_open ex_env (g_filename ?s0)"
    by (simp add: ex_start_def ex_env_def)
  from no_source_setup [OF h1 h2 h3 h4 h5] obtain s k where
    "setupWindows ex_env ?s0 = Inr s" "field s = Null" "boundVolumes s = Some [Obj k]"
    "committed (anari s) k ''field'' = Some (PObject Null)"
    "committed (anari s) k ''valueRange'' = Some (PBox1 0 0)"
    by blast
  with ex_none_1_ok have
    "field ex_none_1 = Null \<and>
     (\<exists>k. boundVolumes ex_none_1 = Some [Obj k] \<and>
        committed (anari ex_none_1) k ''field'' = Some (PObject Null) \<and>
        committed (anari ex_none_1) k ''valueRange'' = Some (PBox1 0 0))"
    by auto
  with h1 h2 h3 h6 h7 ex_none_1_ok show ?thesis by blast
qed

text \<open>
  Claim C2. When the medical-image reader fails in the callback, the callback ends at that
  call: the device state is the one before the call, so no object has been created and no
  call made, and the field handle, the fetched field, the value range and the volumes bound
  in the world are unchanged. Only the active index of the lookup-table reader has been
  set. In the example the reader fails because the index is the size of the catalog.
\<close>

theorem failed_fetch_keeps_generation:
  assumes "nifti_getField env (niftiReader s) 0 (setActiveLut i (lacReader s)) = Inl e"
  shows "\<exists>s'. updateLacLut env i s = Inl (e, s') \<and> anari s' = anari s \<and>
           field s' = field s \<and> world s' = world s \<and> sdata s' = sdata s \<and>
           g_voxelRange s' = g_voxelRange s \<and> boundVolumes s' = boundVolumes s \<and>
           lac_active (lacReader s') = i"
  using assms by (simp add: updateLacLut_eq boundVolumes_def setActiveLut_def)

theorem failed_fetch_keeps_generation_witness:
  "length (lac_names (lacReader ex_nifti_1)) = 2 \<and>
   nifti_getField ex_env (niftiReader ex_nifti_1) 0 (setActiveLut 2 (lacReader ex_nifti_1)) =
     Inl (SourceFailure 1) \<and>
   (\<exists>s'. updateLacLut ex_env 2 ex_nifti_1 = Inl (SourceFailure 1, s') \<and>
         anari s' = anari ex_nifti_1 \<and> field s' = field ex_nifti_1 \<and>
         boundVolumes s' = boundVolumes ex_nifti_1)"
proof -
  have h1: "length (lac_names (lacReader ex_nifti_1)) = 2"
    by (simp add: run_defs stage_defs api_sel ex_env_def ex_start_def ex_nifti_1_def)
  have h2: "nifti_getField ex_env (niftiReader ex_nifti_1) 0
              (setActiveLut 2 (lacReader ex_nifti_1)) = Inl (SourceFailure 1)"
    by (simp add: run_defs stage_defs api_sel ex_env_def ex_start_def ex_nifti_1_def)
  from failed_fetch_keeps_generation [OF h2] h1 h2 show ?thesis by blast
qed

text \<open>
  Claim C9. In every state the callback fetches the field from the medical-image reader:
  what it does is the same whatever the raw reader would do, the field it stores is the one
  that reader returned, and the raw reader is left as it was. When the set-up has built the
  bound generation from the raw reader, the medical-image reader that the callback then
  asks has never been opened.
\<close>

theorem lut_change_reads_nifti:
  "updateLacLut (env\<lparr>raw_open := ro, raw_getField := rg\<rparr>) i s = updateLacLut env i s \<and>
   (case updateLacLut env i s of
      Inl (e, s') \<Rightarrow>
        nifti_getField env (niftiReader s) 0 (setActiveLut i (lacReader s)) = Inl e \<and>
        rawReader s' = rawReader s \<and> sdata s' = sdata s
    | Inr s' \<Rightarrow>
        nifti_getField env (niftiReader s) 0 (setActiveLut i (lacReader s)) = Inr (sdata s') \<and>
        rawReader s' = rawReader s \<and> niftiReader s' = niftiReader s) \<and>
   (startState s0 \<and> setupWindows env s0 = Inr s1 \<and> rawReader s1 = Opened a \<longrightarrow>
      niftiReader s1 = Unopened \<and> raw_getField env (Opened a) 0 = Inr (sdata s1))"
proof (intro conjI impI)
  show "updateLacLut (env\<lparr>raw_open := ro, raw_getField := rg\<rparr>) i s = updateLacLut env i s"
    by (simp add: updateLacLut_eq fieldStage_def Let_def split_def buildField_raw_indep
          split: sum.splits)
  show "case updateLacLut env i s of
      Inl (e, s') \<Rightarrow>
        nifti_getField env (niftiReader s) 0 (setActiveLut i (lacReader s)) = Inl e \<and>
        rawReader s' = rawReader s \<and> sdata s' = sdata s
    | Inr s' \<Rightarrow>
        nifti_getField env (niftiReader s) 0 (setActiveLut i (lacReader s)) = Inr (sdata s') \<and>
        rawReader s' = rawReader s \<and> niftiReader s' = niftiReader s"
    by (simp add: updateLacLut_eq volumeStage_frame fieldStage_frame split: sum.splits)
next
  assume a: "startState s0 \<and> setupWindows env s0 = Inr s1 \<and> rawReader s1 = Opened a"
  then have "rawReader s0 = Unopened" "niftiReader s0 = Unopened"
    by (simp_all add: startState_def)
  with a setupWindows_raw [of env s0 s1 a]
  show "niftiReader s1 = Unopened" and "raw_getField env (Opened a) 0 = Inr (sdata s1)"
    by blast+
qed

theorem lut_change_reads_nifti_witness:
  "startState (ex_start ''grid.raw'' 2 1 1 1) \<and>
   setupWindows ex_env (ex_start ''grid.raw'' 2 1 1 1) = Inr ex_raw_1 \<and>
   rawReader ex_raw_1 = Opened (''grid.raw'', 2, 1, 1, 1) \<and>
   niftiReader ex_raw_1 = Unopened \<and>
   sdata ex_raw_1 = ex_raw_field 2 1 1 1 \<and>
   updateLacLut ex_env 1 ex_raw_1 = Inr ex_raw_2 \<and>
   nifti_getField ex_env Unopened 0 (setActiveLut 1 (lacReader ex_raw_1)) = Inr (sdata ex_raw_2) \<and>
   sdata ex_raw_2 = ex_field \<and>
   rawReader ex_raw_2 = rawReader ex_raw_1"
proof -
  have h1: "rawReader ex_raw_1 = Opened (''grid.raw'', 2, 1, 1, 1)"
    by (simp add: run_defs stage_defs api_sel ex_env_def ex_start_def ex_raw_1_def)
  have h2: "sdata ex_raw_2 = ex_field"
    by (simp add: run_defs stage_defs api_sel ex_env_def ex_start_def ex_raw_1_def ex_raw_2_def)
  have h3: "raw_getField ex_env (Opened (''grid.raw'', 2, 1, 1, 1)) 0 = Inr (ex_raw_field 2 1 1 1)"
    by (simp add: ex_env_def)
  from lut_change_reads_nifti [where env = ex_env and ro = "raw_open ex_env"
       and rg = "raw_getField ex_env" and i = 1 and s = ex_raw_1
       and ?s0.0 = "ex_start ''grid.raw'' 2 1 1 1" and ?s1.0 = ex_raw_1
       and a = "(''grid.raw'', 2, 1, 1, 1)"]
    ex_start_startState [of "''grid.raw''" 2 1 1 1] ex_raw_1_ok ex_raw_2_ok h1 h2 h3
  show ?thesis by auto
qed

text \<open>
  Claim C3, evaluated where it fails. The raw file is declared with three bytes per cell
  and the reader returns a field of that width. The set-up creates no three-dimensional
  array: the object after the field is the volume. It still sets the \<^verbatim>\<open>"data"\<close>
  parameter of the field, to the uninitialised handle, releases that handle, and commits
  the field with this parameter.
\<close>

theorem unsupported_width_sets_data:
  "setupWindows ex_env (ex_start ''grid.raw'' 2 1 1 3) = Inr ex_raw3_1 \<and>
   bytesPerCell (sdata ex_raw3_1) = 3 \<and>
   field ex_raw3_1 = Obj 2 \<and>
   objects (anari ex_raw3_1) 3 = Some (Volume ''transferFunction1D'') \<and>
   committed (anari ex_raw3_1) 2 ''data'' = Some (PObject (uninit_scalar ex_env)) \<and>
   take 5 (drop 1 (calls (anari ex_raw3_1))) =
     [NewObject (Obj 2),
      SetParameter (Obj 2) ''data'' (PObject (uninit_scalar ex_env)),
      Release (uninit_scalar ex_env),
      SetParameter (Obj 2) ''filter'' (PString ''linear''),
      CommitParameters (Obj 2)]"
proof -
  have "bytesPerCell (sdata ex_raw3_1) = 3" "field ex_raw3_1 = Obj 2"
    "objects (anari ex_raw3_1) 3 = Some (Volume ''transferFunction1D'')"
    "committed (anari ex_raw3_1) 2 ''data'' = Some (PObject (uninit_scalar ex_env))"
    "take 5 (drop 1 (calls (anari ex_raw3_1))) =
     [NewObject (Obj 2),
      SetParameter (Obj 2) ''data'' (PObject (uninit_scalar ex_env)),
      Release (uninit_scalar ex_env),
      SetParameter (Obj 2) ''filter'' (PString ''linear''),
      CommitParameters (Obj 2)]"
    by (simp_all add: run_defs stage_defs api_sel ex_env_def ex_start_def ex_raw_field_def
          ex_raw3_1_def)
  with ex_raw3_1_ok show ?thesis by simp
qed





text \<open>
  Claim C1 as stated fails. After the set-up for the medical image the field is object 2
  and the bound volume object 4. The change to table 1 returns and releases five handles,
  all created by this call: three arrays, the array of the world and the new volume. It
  releases neither the prior field nor the prior volume, and the prior field is not
  released by the teardown either.
\<close>

theorem prior_generation_release_counterexample:
  "setupWindows ex_env (ex_start ''ct.nii'' 0 0 0 0) = Inr ex_nifti_1 \<and>
   field ex_nifti_1 = Obj 2 \<and> boundVolumes ex_nifti_1 = Some [Obj 4] \<and>
   updateLacLut ex_env 1 ex_nifti_1 = Inr ex_nifti_2 \<and>
   releases (drop (length (calls (anari ex_nifti_1))) (calls (anari ex_nifti_2))) =
     [Obj 9, Obj 11, Obj 12, Obj 13, Obj 10] \<and>
   count_list (releases (calls (anari (teardown ex_nifti_2)))) (Obj 2) = 0"
proof -
  have "field ex_nifti_1 = Obj 2" "boundVolumes ex_nifti_1 = Some [Obj 4]"
    by (simp_all add: run_defs stage_defs api_sel ex_defs boundVolumes_def worldVolumes_def)
  moreover have
    "releases (drop (length (calls (anari ex_nifti_1))) (calls (anari ex_nifti_2))) =
       [Obj 9, Obj 11, Obj 12, Obj 13, Obj 10]"
    by (simp add: run_defs stage_defs api_sel ex_defs)
  moreover have "count_list (releases (calls (anari (teardown ex_nifti_2)))) (Obj 2) = 0"
    by (simp add: run_defs stage_defs api_sel ex_defs teardown_def releases_append)
  ultimately show ?thesis
    using ex_nifti_1_ok ex_nifti_2_ok by simp
qed

text \<open>
  Claim C1, amended. In a session that starts in the start state and whose readers return
  fields of 1, 2 or 4 bytes per cell only: no handle has been released twice and the field
  handle of the state has not been released; the teardown releases the field handle once
  and releases no handle a second time; and a further call of the callback that returns
  releases the volume it has created exactly once, after setting it as the one-element
  \<^verbatim>\<open>"volume"\<close> array of the world and before the commit of the world, and leaves the
  field handle it stores unreleased.
\<close>

theorem release_discipline:
  assumes "startState s0"
    and "\<forall>r j l f. nifti_getField env r j l = Inr f \<longrightarrow> bytesPerCell f \<in> {1, 2, 4}"
    and "\<forall>r j f. raw_getField env r j = Inr f \<longrightarrow> bytesPerCell f \<in> {1, 2, 4}"
    and "session env s0 ids = Inr s"
  shows "distinct (releases (calls (anari s))) \<and>
         field s \<notin> set (releases (calls (anari s))) \<and>
         distinct (releases (calls (anari (teardown s)))) \<and>
         count_list (releases (calls (anari (teardown s)))) (field s) = 1 \<and>
         (updateLacLut env i s = Inr s' \<longrightarrow>
            (\<exists>v a. boundVolumes s' = Some [Obj v] \<and> next_handle (anari s) \<le> v \<and>
                  count_list (releases (calls (anari s'))) (Obj v) = 1 \<and>
                  drop (length (calls (anari s')) - 4) (calls (anari s')) =
                    [SetParameter (world s') ''volume'' (PObject (Obj a)), Release (Obj a),
                     Release (Obj v), CommitParameters (world s')] \<and>
                  field s' \<notin> set (releases (calls (anari s')))))"
proof -
  let ?R = "releases (calls (anari s))"
  have inv: "releaseInv s"
    by (rule releaseInv_session [OF assms(1,4,2,3)])
  then have d: "distinct ?R" and fr: "field s \<notin> set ?R"
    and b: "\<forall>h \<in> set ?R. handedOut (next_handle (anari s)) h"
    and f: "field s = Null \<or> handedOut (next_handle (anari s)) (field s)"
    and w: "world s = Obj 1" "device s = Obj 0"
    by (simp_all add: releaseInv_def)
  have t: "releases (calls (anari (teardown s))) = ?R @ [field s, Obj 1, Obj 0]"
    by (simp add: teardown_def release_sel releases_append w)
  have no: "Obj 1 \<notin> set ?R" "Obj 0 \<notin> set ?R"
    using b by auto
  have fne: "field s \<noteq> Obj 1" "field s \<noteq> Obj 0"
    using f by auto
  have td: "distinct (releases (calls (anari (teardown s))))"
    using d fr no fne by (simp add: t)
  have tc: "count_list (releases (calls (anari (teardown s)))) (field s) = 1"
    using fr fne by (simp add: t)
  have step: "\<exists>v a. boundVolumes s' = Some [Obj v] \<and> next_handle (anari s) \<le> v \<and>
                  count_list (releases (calls (anari s'))) (Obj v) = 1 \<and>
                  drop (length (calls (anari s')) - 4) (calls (anari s')) =
                    [SetParameter (world s') ''volume'' (PObject (Obj a)), Release (Obj a),
                     Release (Obj v), CommitParameters (world s')] \<and>
                  field s' \<notin> set (releases (calls (anari s')))"
    if u: "updateLacLut env i s = Inr s'"
  proof -
    from u obtain dd where
      g: "nifti_getField env (niftiReader s) 0 (setActiveLut i (lacReader s)) = Inr dd"
      and s': "s' = volumeStage (fieldStage env dd (dimX dd) (dimY dd) (dimZ dd)
                      (s\<lparr>lacReader := setActiveLut i (lacReader s)\<rparr>))"
      by (auto simp: updateLacLut_eq split: sum.splits)
    let ?s3 = "fieldStage env dd (dimX dd) (dimY dd) (dimZ dd)
                 (s\<lparr>lacReader := setActiveLut i (lacReader s)\<rparr>)"
    let ?v = "next_handle (anari ?s3)"
    let ?R3 = "releases (calls (anari ?s3))"
    from g assms(2) have bp: "bytesPerCell dd \<in> {1, 2, 4}" by blast
    have inv3: "releaseInv ?s3"
      using inv bp by (intro releaseInv_fieldStage) (simp_all add: releaseInv_readers)
    then have w3: "world ?s3 = Obj 1"
      and b3: "\<forall>h \<in> set ?R3. handedOut ?v h"
      by (simp_all add: releaseInv_def)
    note fresh = handedOut_fresh [OF b3]
    have inv': "releaseInv s'"
      unfolding s' using inv3 by (rule releaseInv_volumeStage)
    have 1: "boundVolumes s' = Some [Obj ?v]"
      unfolding s' by (rule volumeStage_bound [OF w3])
    have 2: "next_handle (anari s) \<le> ?v"
      by (simp add: fieldStage_next)
    have 3: "count_list (releases (calls (anari s'))) (Obj ?v) = 1"
      unfolding s' using fresh [of ?v] by (simp add: releases_volumeStage)
    have 4: "drop (length (calls (anari s')) - 4) (calls (anari s')) =
               [SetParameter (world s') ''volume'' (PObject (Obj (?v + 3))),
                Release (Obj (?v + 3)), Release (Obj ?v), CommitParameters (world s')]"
      unfolding s' by (simp only: volumeStage_tail volumeStage_frame)
    have 5: "field s' \<notin> set (releases (calls (anari s')))"
      using inv' by (simp add: releaseInv_def)
    from 1 2 3 4 5 show ?thesis by blast
  qed
  from d fr td tc step show ?thesis by blast
qed


theorem release_discipline_witness:
  "startState (ex_start ''ct.nii'' 0 0 0 0) \<and>
   session ex_env_nifti (ex_start ''ct.nii'' 0 0 0 0) [1] = Inr ex_session_1 \<and>
   updateLacLut ex_env_nifti 0 ex_session_1 = Inr ex_session_2 \<and>
   distinct (releases (calls (anari ex_session_1))) \<and>
   field ex_session_1 \<notin> set (releases (calls (anari ex_session_1))) \<and>
   distinct (releases (calls (anari (teardown ex_session_1)))) \<and>
   (\<exists>v. boundVolumes ex_session_2 = Some [Obj v] \<and>
        count_list (releases (calls (anari ex_session_2))) (Obj v) = 1)"
proof -
  have h1: "startState (ex_start ''ct.nii'' 0 0 0 0)"
    by (rule ex_start_startState)
  have h2: "\<forall>r j l f. nifti_getField ex_env_nifti r j l = Inr f \<longrightarrow> bytesPerCell f \<in> {1, 2, 4}"
    by (simp add: ex_env_nifti_def ex_env_def ex_field_def)
  have h3: "\<forall>r j f. raw_getField ex_env_nifti r j = Inr f \<longrightarrow> bytesPerCell f \<in> {1, 2, 4}"
    by (simp add: ex_env_nifti_def ex_env_def)
  from release_discipline [OF h1 h2 h3 ex_session_1_ok, of 0 ex_session_2] ex_session_2_ok
  have "distinct (releases (calls (anari ex_session_1))) \<and>
   field ex_session_1 \<notin> set (releases (calls (anari ex_session_1))) \<and>
   distinct (releases (calls (anari (teardown ex_session_1)))) \<and>
   (\<exists>v. boundVolumes ex_session_2 = Some [Obj v] \<and>
        count_list (releases (calls (anari ex_session_2))) (Obj v) = 1)"
    by blast
  with h1 ex_session_1_ok ex_session_2_ok show ?thesis by blast
qed

end
